theory Spec2Isabelle
  imports Main "HOL-Library.AList"
begin

section \<open>Python values\<close>

text \<open>
  The values that flow through \<^verbatim>\<open>flask_rest_jsonapi/resource.py\<close>: parsed JSON documents
  (\<^verbatim>\<open>request.get_json()\<close>), route parameters (\<^verbatim>\<open>kwargs\<close>), handler return values
  (bodies and tuples), objects handed back by the data layer (instances with attributes)
  and \<^verbatim>\<open>werkzeug\<close> response objects.  A \<^verbatim>\<open>dict\<close> is an association list read with
  \<open>map_of\<close> and written with \<open>AList.update\<close> (an existing key keeps its place, a new key
  goes last, as in Python).  JSON numbers are integers here; non-integral numbers are
  outside the model.
\<close>

datatype pyval =
    PNone
  | PBool bool
  | PInt int
  | PStr string
  | PList "pyval list"
  | PTuple "pyval list"
  | PDict "(string \<times> pyval) list"
  | PObject "(string \<times> pyval) list"
  | PResponse pyval pyval pyval

type_synonym pydict = "(string \<times> pyval) list"

text \<open>
  \<^verbatim>\<open>JsonApiException\<close> and its subclasses live in \<^verbatim>\<open>flask_rest_jsonapi/exceptions.py\<close>;
  the handlers build them as \<^verbatim>\<open>Cls(source, detail)\<close> and read \<^verbatim>\<open>e.status\<close> and
  \<^verbatim>\<open>e.to_dict()\<close>.
\<close>

datatype exc_class =
  BadRequestC | InvalidTypeC | ObjectNotFoundC | RelationNotFoundC | InvalidFieldC | InvalidIncludeC

datatype jsonapi_exception =
  JsonApiException (cls: exc_class) (source: string) (detail: string) (status: pyval)

text \<open>
  Modelled from the spec: the class-level status of the exceptions of
  \<^verbatim>\<open>flask_rest_jsonapi/exceptions.py\<close>, which is not among the sources.  The error taxonomy
  gives 400 for a malformed request and for a relationship type mismatch, "400-class" for
  a field-selection or include error, and 404 as the default of a lookup miss.
\<close>

fun default_status :: "exc_class \<Rightarrow> pyval" where
  "default_status BadRequestC = PInt 400"
| "default_status InvalidTypeC = PInt 400"
| "default_status InvalidFieldC = PInt 400"
| "default_status InvalidIncludeC = PInt 400"
| "default_status ObjectNotFoundC = PInt 404"
| "default_status RelationNotFoundC = PInt 404"

definition BadRequest :: "string \<Rightarrow> string \<Rightarrow> jsonapi_exception" where
  "BadRequest src det = JsonApiException BadRequestC src det (default_status BadRequestC)"

definition InvalidType :: "string \<Rightarrow> string \<Rightarrow> jsonapi_exception" where
  "InvalidType src det = JsonApiException InvalidTypeC src det (default_status InvalidTypeC)"

text \<open>
  What leaves a handler other than by \<^verbatim>\<open>return\<close>: the built-in errors of the operations
  below, the failed \<^verbatim>\<open>assert\<close> of the dispatcher, and a \<^verbatim>\<open>JsonApiException\<close> that no
  \<^verbatim>\<open>except\<close> clause around it names.  \<open>AssertionError m\<close> is the failed assertion
  whose message is \<^verbatim>\<open>'Unimplemented method %r' % m\<close>.
\<close>

datatype pyerror =
    AttributeError
  | TypeError
  | KeyError
  | AssertionError string
  | UnboundLocalError
  | Raised jsonapi_exception

subsection \<open>Built-in operations\<close>

fun is_prefix :: "string \<Rightarrow> string \<Rightarrow> bool" where
  "is_prefix [] ys = True"
| "is_prefix (x # xs) [] = False"
| "is_prefix (x # xs) (y # ys) = (x = y \<and> is_prefix xs ys)"

text \<open>\<^verbatim>\<open>k in s\<close> for two strings: \<open>k\<close> occurs in \<open>s\<close> as a contiguous run.\<close>

fun str_contains :: "string \<Rightarrow> string \<Rightarrow> bool" where
  "str_contains k [] = (k = [])"
| "str_contains k (c # cs) = (is_prefix k (c # cs) \<or> str_contains k cs)"

text \<open>
  \<^verbatim>\<open>==\<close> on the values above.  \<^verbatim>\<open>True == 1\<close> and \<^verbatim>\<open>False == 0\<close> hold in Python;
  lists and tuples compare element by element; two dicts are equal when they have the
  same keys with equal values.  Instances and responses compare by identity, which the
  model does not have: they are equal to nothing here.
\<close>

fun py_eq :: "pyval \<Rightarrow> pyval \<Rightarrow> bool"
  and py_eq_list :: "pyval list \<Rightarrow> pyval list \<Rightarrow> bool"
  and py_sub_dict :: "pydict \<Rightarrow> pydict \<Rightarrow> bool" where
  "py_eq PNone b = (b = PNone)"
| "py_eq (PBool x) b =
     (case b of PBool y \<Rightarrow> x = y | PInt n \<Rightarrow> n = (if x then 1 else 0) | _ \<Rightarrow> False)"
| "py_eq (PInt m) b =
     (case b of PInt n \<Rightarrow> m = n | PBool y \<Rightarrow> m = (if y then 1 else 0) | _ \<Rightarrow> False)"
| "py_eq (PStr s) b = (b = PStr s)"
| "py_eq (PList xs) b = (case b of PList ys \<Rightarrow> py_eq_list xs ys | _ \<Rightarrow> False)"
| "py_eq (PTuple xs) b = (case b of PTuple ys \<Rightarrow> py_eq_list xs ys | _ \<Rightarrow> False)"
| "py_eq (PDict xs) b =
     (case b of
        PDict ys \<Rightarrow> set (map fst xs) = set (map fst ys) \<and> py_sub_dict xs ys
      | _ \<Rightarrow> False)"
| "py_eq (PObject xs) b = False"
| "py_eq (PResponse x y z) b = False"
| "py_eq_list [] ys = (ys = [])"
| "py_eq_list (x # xs) ys =
     (case ys of [] \<Rightarrow> False | y # ys' \<Rightarrow> py_eq x y \<and> py_eq_list xs ys')"
| "py_sub_dict [] ys = True"
| "py_sub_dict (kv # xs) ys =
     (case map_of ys (fst kv) of
        None \<Rightarrow> False
      | Some w \<Rightarrow> py_eq (snd kv) w \<and> py_sub_dict xs ys)"

text \<open>
  \<^verbatim>\<open>k in v\<close> for a string \<open>k\<close>: key membership in a dict, element membership in a list or
  tuple, substring in a string; \<^verbatim>\<open>None\<close>, booleans, numbers and plain instances are not
  iterable, and the test raises \<^verbatim>\<open>TypeError\<close>.
\<close>

fun py_contains :: "string \<Rightarrow> pyval \<Rightarrow> pyerror + bool" where
  "py_contains k (PDict d) = Inr (map_of d k \<noteq> None)"
| "py_contains k (PList xs) = Inr (list_ex (py_eq (PStr k)) xs)"
| "py_contains k (PTuple xs) = Inr (list_ex (py_eq (PStr k)) xs)"
| "py_contains k (PStr s) = Inr (str_contains k s)"
| "py_contains k v = Inl TypeError"

text \<open>
  \<^verbatim>\<open>v[k]\<close> for a string \<open>k\<close>: a dict gives the value or \<^verbatim>\<open>KeyError\<close>; a list, tuple or
  string wants an integer index, and the others are not subscriptable (\<^verbatim>\<open>TypeError\<close>).
\<close>

fun py_getitem :: "pyval \<Rightarrow> string \<Rightarrow> pyerror + pyval" where
  "py_getitem (PDict d) k = (case map_of d k of None \<Rightarrow> Inl KeyError | Some v \<Rightarrow> Inr v)"
| "py_getitem v k = Inl TypeError"

text \<open>\<^verbatim>\<open>v[k] = x\<close> for a string \<open>k\<close>: the updated container, or \<^verbatim>\<open>TypeError\<close>.\<close>

fun py_setitem :: "pyval \<Rightarrow> string \<Rightarrow> pyval \<Rightarrow> pyerror + pyval" where
  "py_setitem (PDict d) k x = Inr (PDict (AList.update k x d))"
| "py_setitem v k x = Inl TypeError"

text \<open>\<^verbatim>\<open>v.get(k)\<close>: only a dict has the method.\<close>

fun py_get :: "pyval \<Rightarrow> string \<Rightarrow> pyerror + pyval" where
  "py_get (PDict d) k = (case map_of d k of None \<Rightarrow> Inr PNone | Some v \<Rightarrow> Inr v)"
| "py_get v k = Inl AttributeError"

fun is_list :: "pyval \<Rightarrow> bool" where
  "is_list (PList xs) = True"
| "is_list v = False"

fun is_dict :: "pyval \<Rightarrow> bool" where
  "is_dict (PDict d) = True"
| "is_dict v = False"

text \<open>The elements a \<^verbatim>\<open>for\<close> loop sees.\<close>

fun py_iter :: "pyval \<Rightarrow> pyerror + pyval list" where
  "py_iter (PList xs) = Inr xs"
| "py_iter (PTuple xs) = Inr xs"
| "py_iter (PDict d) = Inr (map (\<lambda>kv. PStr (fst kv)) d)"
| "py_iter (PStr s) = Inr (map (\<lambda>c. PStr [c]) s)"
| "py_iter v = Inl TypeError"

text \<open>Truth value of a value in a condition.\<close>

fun py_truthy :: "pyval \<Rightarrow> bool" where
  "py_truthy PNone = False"
| "py_truthy (PBool b) = b"
| "py_truthy (PInt n) = (n \<noteq> 0)"
| "py_truthy (PStr s) = (s \<noteq> [])"
| "py_truthy (PList xs) = (xs \<noteq> [])"
| "py_truthy (PTuple xs) = (xs \<noteq> [])"
| "py_truthy (PDict d) = (d \<noteq> [])"
| "py_truthy v = True"

text \<open>
  \<^verbatim>\<open>getattr(v, field)\<close> on a value handed back by the data layer: an instance gives the
  attribute or \<^verbatim>\<open>AttributeError\<close>.  The methods of the built-in types are not modelled:
  every other value has no attribute here.
\<close>

fun py_getattr :: "pyval \<Rightarrow> string \<Rightarrow> pyerror + pyval" where
  "py_getattr (PObject attrs) f = (case map_of attrs f of None \<Rightarrow> Inl AttributeError | Some v \<Rightarrow> Inr v)"
| "py_getattr v f = Inl AttributeError"

text \<open>\<^verbatim>\<open>str.split(sep)\<close> for a one-character separator.\<close>

fun split_on :: "char \<Rightarrow> string \<Rightarrow> string list" where
  "split_on sep [] = [[]]"
| "split_on sep (c # cs) =
     (if c = sep then [] # split_on sep cs
      else (case split_on sep cs of [] \<Rightarrow> [[c]] | w # ws \<Rightarrow> (c # w) # ws))"

text \<open>\<^verbatim>\<open>value.split('.')\<close>: only a string has the method.\<close>

fun py_split_dot :: "pyval \<Rightarrow> pyerror + string list" where
  "py_split_dot (PStr s) = Inr (split_on CHR ''.'' s)"
| "py_split_dot v = Inl AttributeError"

text \<open>\<^verbatim>\<open>str.lower()\<close> on the ASCII letters of an HTTP method name.\<close>

definition lower_char :: "char \<Rightarrow> char" where
  "lower_char c =
     (case map_of (zip ''ABCDEFGHIJKLMNOPQRSTUVWXYZ'' ''abcdefghijklmnopqrstuvwxyz'') c of
        None \<Rightarrow> c
      | Some l \<Rightarrow> l)"

definition lower :: "string \<Rightarrow> string" where
  "lower s = map lower_char s"


section \<open>The collaborators of the handlers\<close>

text \<open>
  \<^verbatim>\<open>self.opts\<close>: the \<^verbatim>\<open>Meta\<close> class of the resource, bound by \<^verbatim>\<open>ResourceMeta.__init__\<close>
  (\<^verbatim>\<open>cls.opts = meta\<close>) and shared by every request.  A field is \<open>None\<close> when the class
  has no such attribute (\<^verbatim>\<open>getattr(self.opts, name, default)\<close> then gives the default and
  \<^verbatim>\<open>hasattr\<close> is false).
\<close>

record Meta =
  schema_get_kwargs :: "pydict option"
  schema_post_kwargs :: "pydict option"
  schema_patch_kwargs :: "pydict option"
  include_endpoint_kwargs :: "pyval option"
  related_id_field :: "string option"
  endpoint_kwargs :: "pydict option"

text \<open>
  The marshmallow schema is an external library.  \<^verbatim>\<open>schema.load(json_data)\<close> raises
  \<^verbatim>\<open>IncorrectTypeError\<close> or \<^verbatim>\<open>ValidationError\<close> (each with its \<^verbatim>\<open>messages\<close>) or returns
  the pair \<^verbatim>\<open>(data, errors)\<close>; \<open>dump sch obj\<close> stands for \<^verbatim>\<open>sch.dump(obj).data\<close>.
\<close>

datatype load_outcome =
    IncorrectTypeError pyval
  | ValidationError pyval
  | Loaded pyval pyval

record schema_instance =
  load :: "pyval \<Rightarrow> load_outcome"
  dump :: "pyval \<Rightarrow> pyval"

text \<open>
  \<^verbatim>\<open>self.schema\<close>: \<open>schema_type\<close> is \<^verbatim>\<open>self.schema.opts.type_\<close>, \<open>instantiate sc kw\<close> is
  \<^verbatim>\<open>self.schema(**kw)\<close>.
\<close>

record Schema =
  schema_type :: string
  instantiate :: "pydict \<Rightarrow> schema_instance"

text \<open>
  \<^verbatim>\<open>QSManager(request.args)\<close>, of \<^verbatim>\<open>flask_rest_jsonapi/querystring.py\<close>: the handlers pass
  it on and read \<^verbatim>\<open>qs.include\<close> (\<open>qs_include\<close>).
\<close>

record QS =
  querystring :: pyval
  qs_include :: pyval

text \<open>
  \<^verbatim>\<open>self.data_layer\<close>.  Each operation is given by its outcome on the arguments it is
  called with: a lookup returns or raises (\<open>Inl\<close>), \<open>update_object\<close> gives the object as
  the data layer leaves it, and an operation without a result raises (\<open>Some\<close>) or not.
\<close>

record BaseDataLayer =
  url_field :: string
  get_collection :: "QS \<Rightarrow> pydict \<Rightarrow> pyval \<times> pyval"
  create_object :: "pyval \<Rightarrow> pydict \<Rightarrow> pyval"
  get_object :: "pydict \<Rightarrow> jsonapi_exception + pyval"
  update_object :: "pyval \<Rightarrow> pyval \<Rightarrow> pydict \<Rightarrow> pyval"
  get_relation :: "string \<Rightarrow> string \<Rightarrow> pydict \<Rightarrow> jsonapi_exception + pyval \<times> pyval"
  create_relation :: "pyval \<Rightarrow> string \<Rightarrow> pydict \<Rightarrow> jsonapi_exception option"
  update_relation :: "pyval \<Rightarrow> string \<Rightarrow> pydict \<Rightarrow> jsonapi_exception option"
  delete_relation :: "pyval \<Rightarrow> string \<Rightarrow> pydict \<Rightarrow> jsonapi_exception option"

text \<open>The calls a handler makes on the data layer, in the order it makes them.\<close>

datatype call =
    GetCollection QS pydict
  | CreateObject pyval pydict
  | GetObject pydict
  | UpdateObject pyval pyval pydict
  | GetRelation string string pydict
  | CreateRelation pyval string pydict
  | UpdateRelation pyval string pydict
  | DeleteRelation pyval string pydict

text \<open>
  The functions the module imports from files that are not among the sources
  (\<^verbatim>\<open>errors.py\<close>, \<^verbatim>\<open>exceptions.py\<close>, \<^verbatim>\<open>querystring.py\<close>, \<^verbatim>\<open>schema.py\<close>,
  \<^verbatim>\<open>pagination.py\<close>) and from Flask (\<^verbatim>\<open>url_for\<close>), taken as parameters.
  \<open>add_pagination_links\<close> gives the document it was handed with the links added.
\<close>

record modules =
  jsonapi_errors :: "pyval list \<Rightarrow> pyval"
  to_dict :: "jsonapi_exception \<Rightarrow> pyval"
  QSManager :: "pyval \<Rightarrow> QS"
  compute_schema :: "Schema \<Rightarrow> pydict \<Rightarrow> QS \<Rightarrow> pyval \<Rightarrow> jsonapi_exception + schema_instance"
  add_pagination_links :: "pyval \<Rightarrow> pyval \<Rightarrow> QS \<Rightarrow> pyval \<Rightarrow> pyval"
  url_for :: "string \<Rightarrow> pydict \<Rightarrow> pyval"

text \<open>Flask's \<^verbatim>\<open>request\<close>; \<open>get_json\<close> is the parsed body.\<close>

record request =
  http_method :: string
  args :: pyval
  view_args :: pydict
  get_json :: pyval

text \<open>
  \<^verbatim>\<open>self\<close>, the attributes the handlers read.  \<open>related_type\<close> is
  \<^verbatim>\<open>self.related_type_\<close> and \<open>self_type\<close> is \<^verbatim>\<open>self.type_\<close>, which
  no class of the module defines: \<open>None\<close> unless the resource class of the application
  declares one.
\<close>

record resource =
  schema :: Schema
  data_layer :: BaseDataLayer
  endpoint :: string
  related_endpoint :: string
  related_type :: string
  self_type :: "pyval option"

text \<open>
  A handler runs on the shared \<open>Meta\<close> and gives what it returns or raises, the \<open>Meta\<close>
  it leaves behind and the data-layer calls it made.
\<close>

type_synonym outcome = "(pyerror + pyval) \<times> Meta \<times> call list"

text \<open>\<^verbatim>\<open>return jsonapi_errors([e.to_dict()]), e.status\<close>\<close>

definition error_response :: "modules \<Rightarrow> jsonapi_exception \<Rightarrow> pyval" where
  "error_response env e = PTuple [jsonapi_errors env [to_dict env e], status e]"

section \<open>Resource.dispatch_request\<close>

datatype response = Response (body: pyval) (status_code: pyval) (headers: pyval)

text \<open>
  Flask's \<^verbatim>\<open>make_response\<close>.  \<open>body\<close> is the value handed to \<^verbatim>\<open>json.dumps\<close>; its
  rendering as text is not modelled.  Called with the body alone, Flask builds the
  response with its default status 200 and no headers from the handler.
\<close>

definition make_response :: "pyval \<Rightarrow> response" where
  "make_response data = Response data (PInt 200) (PDict [])"

definition make_response3 :: "pyval \<Rightarrow> pyval \<Rightarrow> pyval \<Rightarrow> response" where
  "make_response3 data st hs = Response data st hs"

text \<open>\<^verbatim>\<open>isinstance(resp, tuple)\<close> and \<^verbatim>\<open>isinstance(resp, Response)\<close>\<close>

fun is_tuple :: "pyval \<Rightarrow> bool" where
  "is_tuple (PTuple xs) = True"
| "is_tuple v = False"

fun is_Response :: "pyval \<Rightarrow> bool" where
  "is_Response (PResponse b s h) = True"
| "is_Response v = False"

text \<open>
  The part of \<^verbatim>\<open>dispatch_request\<close> after the handler has returned.  Each of the two
  unpackings raises \<^verbatim>\<open>ValueError\<close> before it binds anything when the length is wrong,
  and the error is swallowed; a tuple of another length leaves \<^verbatim>\<open>data\<close> unbound at the
  last line.
\<close>

definition normalize_response :: "pyval \<Rightarrow> pyerror + response" where
  "normalize_response resp =
     (case resp of
        PResponse b s h \<Rightarrow> Inr (Response b s h)
      | PTuple xs \<Rightarrow>
          (let bound3 = (case xs of [data, st, hs] \<Rightarrow> Some (data, st, hs) | _ \<Rightarrow> None);
               bound2 = (case xs of [data, st] \<Rightarrow> Some (data, st, PDict []) | _ \<Rightarrow> bound3)
           in case bound2 of
                None \<Rightarrow> Inl UnboundLocalError
              | Some (data, st, hs) \<Rightarrow> Inr (make_response3 data st hs))
      | _ \<Rightarrow> Inr (make_response resp))"

text \<open>
  \<open>getattr_self name\<close> is \<^verbatim>\<open>getattr(self, name, None)\<close>; a handler takes the arguments
  of the call and the state it runs on.
\<close>

definition dispatch_request ::
  "(string \<Rightarrow> ('a \<Rightarrow> 's \<Rightarrow> (pyerror + pyval) \<times> 's) option) \<Rightarrow> string \<Rightarrow> 'a \<Rightarrow> 's
     \<Rightarrow> (pyerror + response) \<times> 's" where
  "dispatch_request getattr_self request_method kwargs s =
     (let meth = getattr_self (lower request_method);
          meth = (case meth of
                    None \<Rightarrow> if request_method = ''HEAD'' then getattr_self ''get'' else None
                  | Some m \<Rightarrow> Some m)
      in case meth of
           None \<Rightarrow> (Inl (AssertionError request_method), s)
         | Some m \<Rightarrow>
             (case m kwargs s of
                (Inl err, s') \<Rightarrow> (Inl err, s')
              | (Inr resp, s') \<Rightarrow> (normalize_response resp, s')))"

section \<open>ResourceList\<close>

text \<open>
  \<^verbatim>\<open>ResourceList.get\<close>.  \<^verbatim>\<open>schema_kwargs\<close> is the dict of \<^verbatim>\<open>Meta\<close> itself when
  \<^verbatim>\<open>Meta\<close> has \<^verbatim>\<open>schema_get_kwargs\<close>, so \<^verbatim>\<open>schema_kwargs.update({'many': True})\<close>
  writes into it; otherwise it is the fresh \<^verbatim>\<open>dict()\<close> of the default.  Only
  \<^verbatim>\<open>InvalidField\<close> is caught around \<^verbatim>\<open>compute_schema\<close>.
\<close>

definition ResourceList_get :: "modules \<Rightarrow> resource \<Rightarrow> request \<Rightarrow> pydict \<Rightarrow> Meta \<Rightarrow> outcome" where
  "ResourceList_get env self req kwargs opts =
     (let qs = QSManager env (args req);
          (object_count, objects) = get_collection (data_layer self) qs kwargs;
          trace = [GetCollection qs kwargs];
          schema_kwargs =
            AList.update ''many'' (PBool True)
              (case schema_get_kwargs opts of None \<Rightarrow> [] | Some d \<Rightarrow> d);
          opts' = (case schema_get_kwargs opts of
                     None \<Rightarrow> opts
                   | Some d \<Rightarrow> opts\<lparr>schema_get_kwargs := Some schema_kwargs\<rparr>)
      in case compute_schema env (schema self) schema_kwargs qs PNone of
           Inl e \<Rightarrow>
             if cls e = InvalidFieldC then (Inr (error_response env e), opts', trace)
             else (Inl (Raised e), opts', trace)
         | Inr sch \<Rightarrow>
             (let result_data = dump sch objects;
                  endpoint_kwargs =
                    (if include_endpoint_kwargs opts = Some (PBool True) then view_args req
                     else []);
                  result_data' =
                    add_pagination_links env result_data object_count qs
                      (url_for env (endpoint self) endpoint_kwargs)
              in (Inr result_data', opts', trace)))"

text \<open>
  The loop \<^verbatim>\<open>for error in errors['errors']: error['status'] = s; error['title'] = t\<close>
  on the elements it visits: each is written in place, and the first element that takes
  no item assignment ends the loop with \<^verbatim>\<open>TypeError\<close>.
\<close>

fun mark_each :: "string \<Rightarrow> string \<Rightarrow> pyval list \<Rightarrow> pyerror + pyval list" where
  "mark_each s t [] = Inr []"
| "mark_each s t (error # rest) =
     (case py_setitem error ''status'' (PStr s) of
        Inl x \<Rightarrow> Inl x
      | Inr error1 \<Rightarrow>
          (case py_setitem error1 ''title'' (PStr t) of
             Inl x \<Rightarrow> Inl x
           | Inr error2 \<Rightarrow>
               (case mark_each s t rest of
                  Inl x \<Rightarrow> Inl x
                | Inr rest' \<Rightarrow> Inr (error2 # rest'))))"

text \<open>
  The container the loop ran over, with its elements as the loop left them.  The keys of
  a dict and the characters of a string are strings, which take no item assignment: the
  loop over them ends without error only when there are none, and nothing has changed.
\<close>

fun with_elements :: "pyval \<Rightarrow> pyval list \<Rightarrow> pyval" where
  "with_elements (PList xs) ys = PList ys"
| "with_elements (PTuple xs) ys = PTuple ys"
| "with_elements v ys = v"

text \<open>
  The whole loop on \<^verbatim>\<open>errors\<close> (\<^verbatim>\<open>e.messages\<close> or the second component of the
  loaded pair): the value of \<^verbatim>\<open>errors\<close> afterwards, which the handler returns.
\<close>

definition mark_errors :: "string \<Rightarrow> string \<Rightarrow> pyval \<Rightarrow> pyerror + pyval" where
  "mark_errors s t errors =
     (case py_getitem errors ''errors'' of
        Inl x \<Rightarrow> Inl x
      | Inr lst \<Rightarrow>
          (case py_iter lst of
             Inl x \<Rightarrow> Inl x
           | Inr es \<Rightarrow>
               (case mark_each s t es of
                  Inl x \<Rightarrow> Inl x
                | Inr es' \<Rightarrow> py_setitem errors ''errors'' (with_elements lst es'))))"

text \<open>
  The three places where a handler answers a failed \<^verbatim>\<open>schema.load\<close>; \<open>None\<close> when the
  document loaded without errors and the handler goes on with \<^verbatim>\<open>data\<close>.
\<close>

definition load_errors :: "load_outcome \<Rightarrow> (pyerror + pyval) option" where
  "load_errors lo =
     (case lo of
        IncorrectTypeError messages \<Rightarrow>
          Some (case mark_errors ''409'' ''Incorrect type'' messages of
                  Inl x \<Rightarrow> Inl x
                | Inr errors \<Rightarrow> Inr (PTuple [errors, PInt 409]))
      | ValidationError messages \<Rightarrow>
          Some (case mark_errors ''422'' ''Validation error'' messages of
                  Inl x \<Rightarrow> Inl x
                | Inr errors \<Rightarrow> Inr (PTuple [errors, PInt 422]))
      | Loaded data errors \<Rightarrow>
          if py_truthy errors then
            Some (case mark_errors ''422'' ''Validation error'' errors of
                    Inl x \<Rightarrow> Inl x
                  | Inr errors' \<Rightarrow> Inr (PTuple [errors', PInt 422]))
          else None)"

fun loaded_data :: "load_outcome \<Rightarrow> pyval" where
  "loaded_data (Loaded data errors) = data"
| "loaded_data (IncorrectTypeError m) = PNone"
| "loaded_data (ValidationError m) = PNone"

text \<open>\<^verbatim>\<open>ResourceList.post\<close>\<close>

definition ResourceList_post :: "modules \<Rightarrow> resource \<Rightarrow> request \<Rightarrow> pydict \<Rightarrow> Meta \<Rightarrow> outcome" where
  "ResourceList_post env self req kwargs opts =
     (let json_data = get_json req;
          schema_kwargs = (case schema_post_kwargs opts of None \<Rightarrow> [] | Some d \<Rightarrow> d);
          sch = instantiate (schema self) schema_kwargs;
          loaded = load sch json_data
      in case load_errors loaded of
           Some r \<Rightarrow> (r, opts, [])
         | None \<Rightarrow>
             (let data = loaded_data loaded;
                  obj = create_object (data_layer self) data kwargs
              in (Inr (PTuple [dump sch obj, PInt 201]), opts, [CreateObject data kwargs])))"

section \<open>ResourceDetail\<close>

text \<open>
  The \<^verbatim>\<open>try\<close> block of \<^verbatim>\<open>ResourceDetail.patch\<close> that checks \<^verbatim>\<open>data.id\<close> against the
  route.  The left operand of \<^verbatim>\<open>!=\<close> is evaluated first.
\<close>

definition check_id :: "pyval \<Rightarrow> pydict \<Rightarrow> string \<Rightarrow> pyerror + unit" where
  \<open>check_id json_data kwargs url_field_name =
     (case py_getitem json_data ''data'' of
        Inl x \<Rightarrow> Inl x
      | Inr data_node \<Rightarrow>
          (case py_contains ''id'' data_node of
             Inl x \<Rightarrow> Inl x
           | Inr has_id \<Rightarrow>
               if \<not> has_id then Inl (Raised (BadRequest ''/data/id'' ''Missing id in "data" node''))
               else
                 (case py_getitem data_node ''id'' of
                    Inl x \<Rightarrow> Inl x
                  | Inr id_value \<Rightarrow>
                      (case map_of kwargs url_field_name of
                         None \<Rightarrow> Inl KeyError
                       | Some route_id \<Rightarrow>
                           if \<not> py_eq id_value route_id then
                             Inl (Raised (BadRequest ''/data/id''
                               ''Value of id does not match the resource identifier in url''))
                           else Inr ()))))\<close>

text \<open>
  \<^verbatim>\<open>ResourceDetail.patch\<close>.  \<^verbatim>\<open>schema_kwargs.pop('partial', None)\<close> removes the key from
  the dict of \<^verbatim>\<open>Meta\<close> itself when \<^verbatim>\<open>Meta\<close> has \<^verbatim>\<open>schema_patch_kwargs\<close>.  The object
  that is serialised is the one \<^verbatim>\<open>update_object\<close> has written to.
\<close>

definition ResourceDetail_patch :: "modules \<Rightarrow> resource \<Rightarrow> request \<Rightarrow> pydict \<Rightarrow> Meta \<Rightarrow> outcome" where
  "ResourceDetail_patch env self req kwargs opts =
     (let json_data = get_json req;
          schema_kwargs =
            AList.delete ''partial''
              (case schema_patch_kwargs opts of None \<Rightarrow> [] | Some d \<Rightarrow> d);
          opts' = (case schema_patch_kwargs opts of
                     None \<Rightarrow> opts
                   | Some d \<Rightarrow> opts\<lparr>schema_patch_kwargs := Some schema_kwargs\<rparr>);
          sch = instantiate (schema self) ((''partial'', PBool True) # schema_kwargs);
          loaded = load sch json_data
      in case load_errors loaded of
           Some r \<Rightarrow> (r, opts', [])
         | None \<Rightarrow>
             (let data = loaded_data loaded
              in case check_id json_data kwargs (url_field (data_layer self)) of
                   Inl (Raised e) \<Rightarrow>
                     if cls e = BadRequestC then (Inr (error_response env e), opts', [])
                     else (Inl (Raised e), opts', [])
                 | Inl x \<Rightarrow> (Inl x, opts', [])
                 | Inr u \<Rightarrow>
                     (case get_object (data_layer self) kwargs of
                        Inl e \<Rightarrow>
                          if cls e = ObjectNotFoundC
                          then (Inr (error_response env e), opts', [GetObject kwargs])
                          else (Inl (Raised e), opts', [GetObject kwargs])
                      | Inr obj \<Rightarrow>
                          (let obj' = update_object (data_layer self) obj data kwargs
                           in (Inr (dump sch obj'), opts',
                               [GetObject kwargs, UpdateObject obj data kwargs])))))"

section \<open>Relationship\<close>

text \<open>
  The inner loop of \<^verbatim>\<open>Relationship.get\<close>:
  \<^verbatim>\<open>for field in value.split('.'): tmp = getattr(tmp, field)\<close>.
\<close>

fun resolve_path :: "pyval \<Rightarrow> string list \<Rightarrow> pyerror + pyval" where
  "resolve_path tmp [] = Inr tmp"
| "resolve_path tmp (field # rest) =
     (case py_getattr tmp field of
        Inl x \<Rightarrow> Inl x
      | Inr tmp' \<Rightarrow> resolve_path tmp' rest)"

text \<open>
  The outer loop, \<^verbatim>\<open>for key, value in copy(self.opts.endpoint_kwargs).items()\<close>: it runs
  over the items of the copy and assigns \<^verbatim>\<open>self.opts.endpoint_kwargs[key]\<close>, the dict of
  \<^verbatim>\<open>Meta\<close>.  The result is the error that ended the loop, if any, and that dict as the
  loop left it.
\<close>

fun resolve_endpoint_kwargs :: "pyval \<Rightarrow> pydict \<Rightarrow> pydict \<Rightarrow> pyerror option \<times> pydict" where
  "resolve_endpoint_kwargs obj [] current = (None, current)"
| "resolve_endpoint_kwargs obj (item # items) current =
     (case py_split_dot (snd item) of
        Inl x \<Rightarrow> (Some x, current)
      | Inr path \<Rightarrow>
          (case resolve_path obj path of
             Inl x \<Rightarrow> (Some x, current)
           | Inr endpoint_kwargs_value \<Rightarrow>
               resolve_endpoint_kwargs obj items
                 (AList.update (fst item) endpoint_kwargs_value current)))"

text \<open>\<^verbatim>\<open>Relationship.get\<close> from the \<^verbatim>\<open>result\<close> dict on.\<close>

definition Relationship_get_result ::
  "modules \<Rightarrow> resource \<Rightarrow> request \<Rightarrow> pydict \<Rightarrow> pydict \<Rightarrow> pyval \<Rightarrow> pyval \<Rightarrow> pyerror + pyval" where
  "Relationship_get_result env self req kwargs related_endpoint_kwargs obj data =
     (let result =
            [(''links'', PDict [(''self'', url_for env (endpoint self) kwargs),
                                (''related'', url_for env (related_endpoint self)
                                                related_endpoint_kwargs)]),
             (''data'', data)];
          qs = QSManager env (args req)
      in if py_truthy (qs_include qs) then
           (case compute_schema env (schema self) [] qs (qs_include qs) of
              Inl e \<Rightarrow>
                if cls e = InvalidFieldC \<or> cls e = InvalidIncludeC
                then Inr (error_response env e)
                else Inl (Raised e)
            | Inr sch \<Rightarrow>
                (case py_getitem (dump sch obj) ''included'' of
                   Inl x \<Rightarrow> Inl x
                 | Inr included \<Rightarrow> Inr (PDict (AList.update ''included'' included result))))
         else Inr (PDict result))"

text \<open>\<^verbatim>\<open>Relationship.get\<close>\<close>

definition Relationship_get :: "modules \<Rightarrow> resource \<Rightarrow> request \<Rightarrow> pydict \<Rightarrow> Meta \<Rightarrow> outcome" where
  "Relationship_get env self req kwargs opts =
     (let rel_id_field = (case related_id_field opts of None \<Rightarrow> ''id'' | Some f \<Rightarrow> f);
          trace = [GetRelation (related_type self) rel_id_field kwargs]
      in case get_relation (data_layer self) (related_type self) rel_id_field kwargs of
           Inl e \<Rightarrow>
             if cls e = RelationNotFoundC \<or> cls e = ObjectNotFoundC
             then (Inr (error_response env e), opts, trace)
             else (Inl (Raised e), opts, trace)
         | Inr (obj, data) \<Rightarrow>
             (case endpoint_kwargs opts of
                None \<Rightarrow>
                  (Relationship_get_result env self req kwargs kwargs obj data, opts, trace)
              | Some template \<Rightarrow>
                  (case resolve_endpoint_kwargs obj template template of
                     (Some x, written) \<Rightarrow>
                       (Inl x, opts\<lparr>endpoint_kwargs := Some written\<rparr>, trace)
                   | (None, written) \<Rightarrow>
                       (Relationship_get_result env self req kwargs written obj data,
                        opts\<lparr>endpoint_kwargs := Some written\<rparr>, trace))))"

text \<open>
  The checks on one item of the \<^verbatim>\<open>data\<close> list, as the three mutators write them:
  \<^verbatim>\<open>'type' not in obj\<close>, \<^verbatim>\<open>'id' not in obj\<close>, \<^verbatim>\<open>obj['type'] != <declared>\<close>.  The
  right operand of the comparison is given as it evaluates (\<^verbatim>\<open>type_\<close> is a local;
  \<^verbatim>\<open>self.type_\<close> is an attribute lookup, made after \<^verbatim>\<open>obj['type']\<close>), with the message
  of the \<^verbatim>\<open>InvalidType\<close> raised there.
\<close>

definition check_item :: "pyerror + pyval \<Rightarrow> string \<Rightarrow> pyval \<Rightarrow> pyerror + unit" where
  \<open>check_item declared msg obj =
     (case py_contains ''type'' obj of
        Inl x \<Rightarrow> Inl x
      | Inr has_type \<Rightarrow>
          if \<not> has_type then Inl (Raised (BadRequest ''/data/type'' ''Missing type in "data" node''))
          else
            (case py_contains ''id'' obj of
               Inl x \<Rightarrow> Inl x
             | Inr has_id \<Rightarrow>
                 if \<not> has_id then Inl (Raised (BadRequest ''/data/id'' ''Missing id in "data" node''))
                 else
                   (case py_getitem obj ''type'' of
                      Inl x \<Rightarrow> Inl x
                    | Inr t \<Rightarrow>
                        (case declared of
                           Inl x \<Rightarrow> Inl x
                         | Inr d \<Rightarrow>
                             if \<not> py_eq t d then Inl (Raised (InvalidType ''/data/type'' msg))
                             else Inr ()))))\<close>

text \<open>\<^verbatim>\<open>for obj in json_data['data']: ...\<close>, ended by the first raise.\<close>

fun check_items :: "pyerror + pyval \<Rightarrow> string \<Rightarrow> pyval list \<Rightarrow> pyerror + unit" where
  "check_items declared msg [] = Inr ()"
| "check_items declared msg (obj # objs) =
     (case check_item declared msg obj of
        Inl x \<Rightarrow> Inl x
      | Inr u \<Rightarrow> check_items declared msg objs)"

text \<open>The \<^verbatim>\<open>try\<close> block of \<^verbatim>\<open>Relationship.post\<close> and of \<^verbatim>\<open>Relationship.delete\<close>.\<close>

definition check_list_document :: "string \<Rightarrow> pyval \<Rightarrow> pyerror + unit" where
  \<open>check_list_document declared_type json_data =
     (case py_contains ''data'' json_data of
        Inl x \<Rightarrow> Inl x
      | Inr has_data \<Rightarrow>
          if \<not> has_data then
            Inl (Raised (BadRequest ''/data'' ''You must provide data with a "data" route node''))
          else
            (case py_get json_data ''data'' of
               Inl x \<Rightarrow> Inl x
             | Inr d \<Rightarrow>
                 if \<not> is_list d then
                   Inl (Raised (BadRequest ''/data'' ''You must provide data as list''))
                 else
                   (case py_getitem json_data ''data'' of
                      Inl x \<Rightarrow> Inl x
                    | Inr lst \<Rightarrow>
                        (case py_iter lst of
                           Inl x \<Rightarrow> Inl x
                         | Inr objs \<Rightarrow>
                             check_items (Inr (PStr declared_type))
                               ''The type provided does not match the resource type'' objs))))\<close>

text \<open>
  The \<^verbatim>\<open>try\<close> block of \<^verbatim>\<open>Relationship.patch\<close>.  The single object is compared with the
  local \<^verbatim>\<open>type_\<close>; the items of a list are compared with \<^verbatim>\<open>self.type_\<close>.
\<close>

definition check_patch_document :: "string \<Rightarrow> pyval option \<Rightarrow> pyval \<Rightarrow> pyerror + unit" where
  \<open>check_patch_document declared_type self_attr json_data =
     (case py_contains ''data'' json_data of
        Inl x \<Rightarrow> Inl x
      | Inr has_data \<Rightarrow>
          if \<not> has_data then
            Inl (Raised (BadRequest ''/data'' ''You must provide data with a "data" route node''))
          else
            (case py_getitem json_data ''data'' of
               Inl x \<Rightarrow> Inl x
             | Inr d \<Rightarrow>
                 (case (if is_dict d
                        then check_item (Inr (PStr declared_type))
                               ''The type field does not match the resource type'' d
                        else Inr ()) of
                    Inl x \<Rightarrow> Inl x
                  | Inr u \<Rightarrow>
                      if is_list d then
                        (case py_iter d of
                           Inl x \<Rightarrow> Inl x
                         | Inr objs \<Rightarrow>
                             check_items
                               (case self_attr of None \<Rightarrow> Inl AttributeError | Some v \<Rightarrow> Inr v)
                               ''The type provided does not match the resource type'' objs)
                      else Inr ())))\<close>

text \<open>
  What the three mutators do with the outcome of their \<^verbatim>\<open>try\<close> block and, when it
  passed, with the outcome of the data-layer call: \<^verbatim>\<open>except (BadRequest, InvalidType)\<close>
  around the checks, and an \<^verbatim>\<open>except\<close> around the call that names the classes
  \<open>caught\<close>.  The handler returns \<^verbatim>\<open>''\<close> when nothing was raised.
\<close>

definition relationship_mutation ::
  "modules \<Rightarrow> pyerror + unit \<Rightarrow> jsonapi_exception option \<Rightarrow> exc_class list \<Rightarrow> call
     \<Rightarrow> Meta \<Rightarrow> outcome" where
  "relationship_mutation env checked called caught c opts =
     (case checked of
        Inl (Raised e) \<Rightarrow>
          if cls e = BadRequestC \<or> cls e = InvalidTypeC then (Inr (error_response env e), opts, [])
          else (Inl (Raised e), opts, [])
      | Inl x \<Rightarrow> (Inl x, opts, [])
      | Inr u \<Rightarrow>
          (case called of
             Some e \<Rightarrow>
               if cls e \<in> set caught then (Inr (error_response env e), opts, [c])
               else (Inl (Raised e), opts, [c])
           | None \<Rightarrow> (Inr (PStr []), opts, [c])))"

text \<open>\<^verbatim>\<open>Relationship.post\<close>\<close>

definition Relationship_post :: "modules \<Rightarrow> resource \<Rightarrow> request \<Rightarrow> pydict \<Rightarrow> Meta \<Rightarrow> outcome" where
  "Relationship_post env self req kwargs opts =
     (let json_data = get_json req;
          rel_id_field = (case related_id_field opts of None \<Rightarrow> ''id'' | Some f \<Rightarrow> f)
      in relationship_mutation env
           (check_list_document (schema_type (schema self)) json_data)
           (create_relation (data_layer self) json_data rel_id_field kwargs)
           [RelationNotFoundC, ObjectNotFoundC]
           (CreateRelation json_data rel_id_field kwargs) opts)"

text \<open>\<^verbatim>\<open>Relationship.patch\<close>\<close>

definition Relationship_patch :: "modules \<Rightarrow> resource \<Rightarrow> request \<Rightarrow> pydict \<Rightarrow> Meta \<Rightarrow> outcome" where
  "Relationship_patch env self req kwargs opts =
     (let json_data = get_json req;
          rel_id_field = (case related_id_field opts of None \<Rightarrow> ''id'' | Some f \<Rightarrow> f)
      in relationship_mutation env
           (check_patch_document (schema_type (schema self)) (self_type self) json_data)
           (update_relation (data_layer self) json_data rel_id_field kwargs)
           [RelationNotFoundC, ObjectNotFoundC]
           (UpdateRelation json_data rel_id_field kwargs) opts)"

text \<open>\<^verbatim>\<open>Relationship.delete\<close>: only \<^verbatim>\<open>RelationNotFound\<close> is caught around the call.\<close>

definition Relationship_delete :: "modules \<Rightarrow> resource \<Rightarrow> request \<Rightarrow> pydict \<Rightarrow> Meta \<Rightarrow> outcome" where
  "Relationship_delete env self req kwargs opts =
     (let json_data = get_json req;
          rel_id_field = (case related_id_field opts of None \<Rightarrow> ''id'' | Some f \<Rightarrow> f)
      in relationship_mutation env
           (check_list_document (schema_type (schema self)) json_data)
           (delete_relation (data_layer self) json_data rel_id_field kwargs)
           [RelationNotFoundC]
           (DeleteRelation json_data rel_id_field kwargs) opts)"

section \<open>An example endpoint\<close>

text \<open>
  A concrete collection endpoint on which the handlers can be run: a schema of type
  \<open>person\<close> that loads every document, a data layer with an empty collection, and a
  \<^verbatim>\<open>compute_schema\<close> that rejects every request that selects fields.
\<close>

definition example_schema :: Schema where
  "example_schema =
     \<lparr>schema_type = ''person'',
      instantiate = (\<lambda>kw. \<lparr>load = (\<lambda>doc. Loaded doc (PDict [])),
                             dump = (\<lambda>obj. PDict [(''data'', obj)])\<rparr>)\<rparr>"

definition example_data_layer :: BaseDataLayer where
  "example_data_layer =
     \<lparr>url_field = ''id'',
      get_collection = (\<lambda>qs kw. (PInt 0, PList [])),
      create_object = (\<lambda>data kw. data),
      get_object = (\<lambda>kw. Inr (PObject [])),
      update_object = (\<lambda>obj data kw. obj),
      get_relation = (\<lambda>t f kw. Inr (PObject [], PList [])),
      create_relation = (\<lambda>doc f kw. None),
      update_relation = (\<lambda>doc f kw. None),
      delete_relation = (\<lambda>doc f kw. None)\<rparr>"

definition example_resource :: resource where
  "example_resource =
     \<lparr>schema = example_schema, data_layer = example_data_layer, endpoint = ''person_list'',
      related_endpoint = ''computer_list'', related_type = ''computer'', self_type = None\<rparr>"

definition example_modules :: modules where
  "example_modules =
     \<lparr>jsonapi_errors = (\<lambda>es. PDict [(''errors'', PList es)]),
      to_dict = (\<lambda>e. PDict [(''status'', status e),
                           (''source'', PDict [(''pointer'', PStr (source e))]),
                           (''detail'', PStr (detail e))]),
      QSManager = (\<lambda>a. \<lparr>querystring = a, qs_include = PList []\<rparr>),
      compute_schema =
        (\<lambda>sc kw qs inc.
           if py_truthy (querystring qs)
           then Inl (JsonApiException InvalidFieldC ''fields'' ''person has no attribute nope''
                       (default_status InvalidFieldC))
           else Inr (instantiate sc kw)),
      add_pagination_links = (\<lambda>doc cnt qs url. doc),
      url_for = (\<lambda>ep kw. PStr ep)\<rparr>"

definition example_request :: request where
  "example_request =
     \<lparr>http_method = ''GET'', args = PDict [(''fields[person]'', PStr ''nope'')],
      view_args = [], get_json = PNone\<rparr>"

definition example_Meta :: Meta where
  "example_Meta =
     \<lparr>schema_get_kwargs = None, schema_post_kwargs = None, schema_patch_kwargs = None,
      include_endpoint_kwargs = None, related_id_field = None, endpoint_kwargs = None\<rparr>"

section \<open>Properties of the dispatcher\<close>

lemma lower_HEAD: "lower ''HEAD'' = ''head''"
  by (simp add: lower_def lower_char_def)

lemma lower_GET: "lower ''GET'' = ''get''"
  by (simp add: lower_def lower_char_def)

lemma lower_PUT: "lower ''PUT'' = ''put''"
  by (simp add: lower_def lower_char_def)

lemma normalize_raw:
  "\<not> is_tuple resp \<Longrightarrow> \<not> is_Response resp \<Longrightarrow>
   normalize_response resp = Inr (Response resp (PInt 200) (PDict []))"
  by (cases resp) (simp_all add: normalize_response_def make_response_def)

lemma normalize_pair: "normalize_response (PTuple [b, st]) = Inr (Response b st (PDict []))"
  by (simp add: normalize_response_def make_response3_def)

lemma normalize_triple: "normalize_response (PTuple [b, st, hs]) = Inr (Response b st hs)"
  by (simp add: normalize_response_def make_response3_def)

text \<open>
  C8.  When the bound handler returns a value, the dispatcher answers with the canonical
  triple: a value that is neither a tuple nor a response object becomes the body with
  status 200 and empty headers, a pair \<open>(body, status)\<close> gets empty headers, and a
  triple \<open>(body, status, headers)\<close> is kept as it is.
\<close>

theorem dispatch_normalizes:
  assumes "getattr_self (lower m) = Some h" and "h kwargs s = (Inr resp, s')"
  shows "(\<not> is_tuple resp \<and> \<not> is_Response resp \<longrightarrow>
            dispatch_request getattr_self m kwargs s =
              (Inr (Response resp (PInt 200) (PDict [])), s'))
       \<and> (\<forall>b st. resp = PTuple [b, st] \<longrightarrow>
            dispatch_request getattr_self m kwargs s = (Inr (Response b st (PDict [])), s'))
       \<and> (\<forall>b st hs. resp = PTuple [b, st, hs] \<longrightarrow>
            dispatch_request getattr_self m kwargs s = (Inr (Response b st hs), s'))"
proof -
  have d: "dispatch_request getattr_self m kwargs s = (normalize_response resp, s')"
    using assms by (simp add: dispatch_request_def)
  show ?thesis
    unfolding d using normalize_raw normalize_pair normalize_triple by simp
qed

theorem dispatch_normalizes_witness:
  "dispatch_request
     (\<lambda>n. if n = ''get'' then Some (\<lambda>k s. (Inr (PDict [(''data'', PList [])]), s)) else None)
     ''GET'' () (0::nat)
     = (Inr (Response (PDict [(''data'', PList [])]) (PInt 200) (PDict [])), 0)
   \<and> dispatch_request
     (\<lambda>n. if n = ''get'' then Some (\<lambda>k s. (Inr (PTuple [PStr '''', PInt 204]), s)) else None)
     ''GET'' () (0::nat)
     = (Inr (Response (PStr '''') (PInt 204) (PDict [])), 0)
   \<and> dispatch_request
     (\<lambda>n. if n = ''get''
          then Some (\<lambda>k s. (Inr (PTuple [PStr '''', PInt 201, PDict [(''Location'', PStr ''/x'')]]), s))
          else None)
     ''GET'' () (0::nat)
     = (Inr (Response (PStr '''') (PInt 201) (PDict [(''Location'', PStr ''/x'')])), 0)"
proof -
  let ?h1 = "\<lambda>(k::unit) (s::nat). (Inr (PDict [(''data'', PList [])]) :: pyerror + pyval, s)"
  let ?h2 = "\<lambda>(k::unit) (s::nat). (Inr (PTuple [PStr '''', PInt 204]) :: pyerror + pyval, s)"
  let ?h3 = "\<lambda>(k::unit) (s::nat).
    (Inr (PTuple [PStr '''', PInt 201, PDict [(''Location'', PStr ''/x'')]]) :: pyerror + pyval, s)"
  show ?thesis
    using
      dispatch_normalizes [where getattr_self = "\<lambda>n. if n = ''get'' then Some ?h1 else None"
        and m = "''GET''" and h = ?h1 and kwargs = "()" and s = 0 and s' = 0
        and resp = "PDict [(''data'', PList [])]"]
      dispatch_normalizes [where getattr_self = "\<lambda>n. if n = ''get'' then Some ?h2 else None"
        and m = "''GET''" and h = ?h2 and kwargs = "()" and s = 0 and s' = 0
        and resp = "PTuple [PStr '''', PInt 204]"]
      dispatch_normalizes [where getattr_self = "\<lambda>n. if n = ''get'' then Some ?h3 else None"
        and m = "''GET''" and h = ?h3 and kwargs = "()" and s = 0 and s' = 0
        and resp = "PTuple [PStr '''', PInt 201, PDict [(''Location'', PStr ''/x'')]]"]
    by (simp add: lower_GET)
qed

text \<open>
  C7.  A verb whose lower-cased name is not an attribute of the resource ends the
  dispatch with the failed assertion, without a response and without running a handler;
  the one exception is \<open>HEAD\<close>, which runs the \<open>get\<close> handler when there is one.
\<close>

theorem dispatch_unimplemented:
  "(getattr_self (lower m) = None \<and> (m \<noteq> ''HEAD'' \<or> getattr_self ''get'' = None) \<longrightarrow>
      dispatch_request getattr_self m kwargs s = (Inl (AssertionError m), s))
   \<and> (getattr_self (lower ''HEAD'') = None \<and> getattr_self ''get'' = Some h \<longrightarrow>
      dispatch_request getattr_self ''HEAD'' kwargs s =
        (case h kwargs s of
           (Inl err, s') \<Rightarrow> (Inl err, s')
         | (Inr resp, s') \<Rightarrow> (normalize_response resp, s')))"
  by (auto simp: dispatch_request_def split: option.splits)

theorem dispatch_unimplemented_witness:
  "dispatch_request
     (\<lambda>n. if n = ''get'' then Some (\<lambda>k s. (Inr (PStr ''ok''), Suc s)) else None)
     ''PUT'' () (0::nat) = (Inl (AssertionError ''PUT''), 0)
   \<and> dispatch_request (\<lambda>n. None :: (unit \<Rightarrow> nat \<Rightarrow> (pyerror + pyval) \<times> nat) option)
     ''HEAD'' () (0::nat) = (Inl (AssertionError ''HEAD''), 0)
   \<and> dispatch_request
     (\<lambda>n. if n = ''get'' then Some (\<lambda>k s. (Inr (PStr ''ok''), Suc s)) else None)
     ''HEAD'' () (0::nat) = (Inr (Response (PStr ''ok'') (PInt 200) (PDict [])), 1)"
  using
    dispatch_unimplemented [of
      "\<lambda>n. if n = ''get'' then Some (\<lambda>k s. (Inr (PStr ''ok''), Suc s)) else None"
      "''PUT''" "()" "0::nat" "\<lambda>k s. (Inr (PStr ''ok''), Suc s)"]
    dispatch_unimplemented [of
      "\<lambda>n. None :: (unit \<Rightarrow> nat \<Rightarrow> (pyerror + pyval) \<times> nat) option"
      "''HEAD''" "()" "0::nat"]
    dispatch_unimplemented [of
      "\<lambda>n. if n = ''get'' then Some (\<lambda>k s. (Inr (PStr ''ok''), Suc s)) else None"
      "''HEAD''" "()" "0::nat" "\<lambda>k s. (Inr (PStr ''ok''), Suc s)"]
  by (simp add: lower_PUT lower_HEAD normalize_raw)

section \<open>Properties of the relationship mutators\<close>

lemma py_eq_PStr: "py_eq v (PStr t) = (v = PStr t)"
  by (cases v) auto

lemma status_BadRequest: "status (BadRequest p d) = PInt 400"
  by (simp add: BadRequest_def)

lemma cls_BadRequest: "cls (BadRequest p d) = BadRequestC"
  by (simp add: BadRequest_def)

lemma cls_InvalidType: "cls (InvalidType p d) = InvalidTypeC"
  by (simp add: InvalidType_def)

lemma check_item_dict:
  \<open>check_item (Inr (PStr t)) msg (PDict item) =
     (if map_of item ''type'' = None
      then Inl (Raised (BadRequest ''/data/type'' ''Missing type in "data" node''))
      else if map_of item ''id'' = None
      then Inl (Raised (BadRequest ''/data/id'' ''Missing id in "data" node''))
      else if map_of item ''type'' \<noteq> Some (PStr t)
      then Inl (Raised (InvalidType ''/data/type'' msg))
      else Inr ())\<close>
  by (auto simp: check_item_def py_eq_PStr split: option.splits)

lemma check_items_append:
  "check_items d msg (pre @ obj # post) =
     (case check_items d msg pre of
        Inl x \<Rightarrow> Inl x
      | Inr u \<Rightarrow> (case check_item d msg obj of Inl x \<Rightarrow> Inl x | Inr u \<Rightarrow> check_items d msg post))"
  by (induction pre) (auto split: sum.splits)

lemma check_list_document_no_data:
  \<open>map_of doc ''data'' = None \<Longrightarrow>
   check_list_document t (PDict doc) =
     Inl (Raised (BadRequest ''/data'' ''You must provide data with a "data" route node''))\<close>
  by (simp add: check_list_document_def)

lemma check_list_document_not_list:
  \<open>map_of doc ''data'' = Some v \<Longrightarrow> \<not> is_list v \<Longrightarrow>
   check_list_document t (PDict doc) =
     Inl (Raised (BadRequest ''/data'' ''You must provide data as list''))\<close>
  by (simp add: check_list_document_def)

lemma check_list_document_list:
  \<open>map_of doc ''data'' = Some (PList objs) \<Longrightarrow>
   check_list_document t (PDict doc) =
     check_items (Inr (PStr t)) ''The type provided does not match the resource type'' objs\<close>
  by (simp add: check_list_document_def)

lemma mutation_BadRequest:
  "relationship_mutation env (Inl (Raised (BadRequest p d))) called caught c opts =
     (Inr (PTuple [jsonapi_errors env [to_dict env (BadRequest p d)], PInt 400]), opts, [])"
  by (simp add: relationship_mutation_def error_response_def cls_BadRequest status_BadRequest)

lemma mutation_failed_trace:
  "snd (snd (relationship_mutation env (Inl x) called caught c opts)) = []"
  by (cases x) (auto simp: relationship_mutation_def)

text \<open>
  C3.  \<^verbatim>\<open>Relationship.post\<close> and \<^verbatim>\<open>Relationship.delete\<close> on a JSON object: without a
  \<open>data\<close> key, or with a \<open>data\<close> that is not a list, the answer is the 400 envelope
  of a \<open>BadRequest\<close> with pointer \<open>/data\<close>; when the first item that fails a check
  is an object without \<open>type\<close>, it is the 400 envelope with pointer \<open>/data/type\<close>,
  and when it has \<open>type\<close> but no \<open>id\<close>, the one with pointer \<open>/data/id\<close>.  In
  these cases, and whenever the checks raise anything at all, the handler has made no
  call on the data layer.
\<close>

theorem relationship_post_delete_rejects:
  assumes H: "H = Relationship_post \<or> H = Relationship_delete"
    and body: "get_json req = PDict doc"
  shows
  \<open>(map_of doc ''data'' = None \<longrightarrow>
      H env self req kwargs opts =
        (Inr (PTuple [jsonapi_errors env [to_dict env
           (BadRequest ''/data'' ''You must provide data with a "data" route node'')], PInt 400]),
         opts, []))
   \<and> (\<forall>v. map_of doc ''data'' = Some v \<and> \<not> is_list v \<longrightarrow>
      H env self req kwargs opts =
        (Inr (PTuple [jsonapi_errors env [to_dict env
           (BadRequest ''/data'' ''You must provide data as list'')], PInt 400]),
         opts, []))
   \<and> (\<forall>pre item post.
        map_of doc ''data'' = Some (PList (pre @ PDict item # post)) \<and>
        check_items (Inr (PStr (schema_type (schema self))))
          ''The type provided does not match the resource type'' pre = Inr () \<and>
        map_of item ''type'' = None \<longrightarrow>
      H env self req kwargs opts =
        (Inr (PTuple [jsonapi_errors env [to_dict env
           (BadRequest ''/data/type'' ''Missing type in "data" node'')], PInt 400]),
         opts, []))
   \<and> (\<forall>pre item post.
        map_of doc ''data'' = Some (PList (pre @ PDict item # post)) \<and>
        check_items (Inr (PStr (schema_type (schema self))))
          ''The type provided does not match the resource type'' pre = Inr () \<and>
        map_of item ''type'' \<noteq> None \<and> map_of item ''id'' = None \<longrightarrow>
      H env self req kwargs opts =
        (Inr (PTuple [jsonapi_errors env [to_dict env
           (BadRequest ''/data/id'' ''Missing id in "data" node'')], PInt 400]),
         opts, []))
   \<and> (\<forall>x. check_list_document (schema_type (schema self)) (get_json req) = Inl x \<longrightarrow>
        snd (snd (H env self req kwargs opts)) = [])\<close>
proof -
  obtain called caught c where
    Hdef: "H env self req kwargs opts =
      relationship_mutation env (check_list_document (schema_type (schema self)) (PDict doc))
        called caught c opts"
    using H body by (auto simp: Relationship_post_def Relationship_delete_def Let_def)
  show ?thesis
    unfolding Hdef body
    by (auto simp: check_list_document_no_data check_list_document_not_list
        check_list_document_list check_items_append check_item_dict
        mutation_BadRequest mutation_failed_trace)
qed

theorem relationship_post_delete_rejects_witness:
  \<open>\<forall>env self req opts.
     Relationship_post env self (req\<lparr>get_json := PDict []\<rparr>) [] opts =
       (Inr (PTuple [jsonapi_errors env [to_dict env
          (BadRequest ''/data'' ''You must provide data with a "data" route node'')], PInt 400]),
        opts, [])
   \<and> Relationship_delete env self
       (req\<lparr>get_json := PDict [(''data'', PDict [(''type'', PStr ''person''), (''id'', PStr ''1'')])]\<rparr>)
       [] opts =
       (Inr (PTuple [jsonapi_errors env [to_dict env
          (BadRequest ''/data'' ''You must provide data as list'')], PInt 400]),
        opts, [])
   \<and> Relationship_post env self
       (req\<lparr>get_json := PDict [(''data'', PList [PDict [(''id'', PStr ''1'')]])]\<rparr>) [] opts =
       (Inr (PTuple [jsonapi_errors env [to_dict env
          (BadRequest ''/data/type'' ''Missing type in "data" node'')], PInt 400]),
        opts, [])
   \<and> Relationship_delete env self
       (req\<lparr>get_json := PDict [(''data'', PList [PDict [(''type'', PStr ''person'')]])]\<rparr>) [] opts =
       (Inr (PTuple [jsonapi_errors env [to_dict env
          (BadRequest ''/data/id'' ''Missing id in "data" node'')], PInt 400]),
        opts, [])\<close>
proof (intro allI conjI)
  fix env :: modules and self :: resource and req :: request and opts :: Meta
  let ?r1 = "req\<lparr>get_json := PDict []\<rparr>"
  let ?d2 = "[(''data'', PDict [(''type'', PStr ''person''), (''id'', PStr ''1'')])]"
  let ?d3 = "[(''data'', PList [PDict [(''id'', PStr ''1'')]])]"
  let ?d4 = "[(''data'', PList [PDict [(''type'', PStr ''person'')]])]"
  note t1 = relationship_post_delete_rejects
    [where H = Relationship_post and req = ?r1 and doc = "[]"
       and env = env and self = self and kwargs = "[]" and opts = opts]
  note t2 = relationship_post_delete_rejects
    [where H = Relationship_delete and req = "req\<lparr>get_json := PDict ?d2\<rparr>" and doc = ?d2
       and env = env and self = self and kwargs = "[]" and opts = opts]
  note t3 = relationship_post_delete_rejects
    [where H = Relationship_post and req = "req\<lparr>get_json := PDict ?d3\<rparr>" and doc = ?d3
       and env = env and self = self and kwargs = "[]" and opts = opts]
  note t4 = relationship_post_delete_rejects
    [where H = Relationship_delete and req = "req\<lparr>get_json := PDict ?d4\<rparr>" and doc = ?d4
       and env = env and self = self and kwargs = "[]" and opts = opts]
  show \<open>Relationship_post env self ?r1 [] opts =
       (Inr (PTuple [jsonapi_errors env [to_dict env
          (BadRequest ''/data'' ''You must provide data with a "data" route node'')], PInt 400]),
        opts, [])\<close>
    using t1 by simp
  show \<open>Relationship_delete env self (req\<lparr>get_json := PDict ?d2\<rparr>) [] opts =
       (Inr (PTuple [jsonapi_errors env [to_dict env
          (BadRequest ''/data'' ''You must provide data as list'')], PInt 400]),
        opts, [])\<close>
    using t2 by simp
  have \<open>Relationship_post = Relationship_post \<or> Relationship_post = Relationship_delete\<close>
    by simp
  from t3 [OF this]
  have \<open>\<forall>pre item post.
        map_of ?d3 ''data'' = Some (PList (pre @ PDict item # post)) \<and>
        check_items (Inr (PStr (schema_type (schema self))))
          ''The type provided does not match the resource type'' pre = Inr () \<and>
        map_of item ''type'' = None \<longrightarrow>
      Relationship_post env self (req\<lparr>get_json := PDict ?d3\<rparr>) [] opts =
        (Inr (PTuple [jsonapi_errors env [to_dict env
           (BadRequest ''/data/type'' ''Missing type in "data" node'')], PInt 400]),
         opts, [])\<close>
    by simp
  from this [rule_format, of "[]" "[(''id'', PStr ''1'')]" "[]"]
  show \<open>Relationship_post env self (req\<lparr>get_json := PDict ?d3\<rparr>) [] opts =
       (Inr (PTuple [jsonapi_errors env [to_dict env
          (BadRequest ''/data/type'' ''Missing type in "data" node'')], PInt 400]),
        opts, [])\<close>
    by simp
  have \<open>Relationship_delete = Relationship_post \<or> Relationship_delete = Relationship_delete\<close>
    by simp
  from t4 [OF this]
  have \<open>\<forall>pre item post.
        map_of ?d4 ''data'' = Some (PList (pre @ PDict item # post)) \<and>
        check_items (Inr (PStr (schema_type (schema self))))
          ''The type provided does not match the resource type'' pre = Inr () \<and>
        map_of item ''type'' \<noteq> None \<and> map_of item ''id'' = None \<longrightarrow>
      Relationship_delete env self (req\<lparr>get_json := PDict ?d4\<rparr>) [] opts =
        (Inr (PTuple [jsonapi_errors env [to_dict env
           (BadRequest ''/data/id'' ''Missing id in "data" node'')], PInt 400]),
         opts, [])\<close>
    by simp
  from this [rule_format, of "[]" "[(''type'', PStr ''person'')]" "[]"]
  show \<open>Relationship_delete env self (req\<lparr>get_json := PDict ?d4\<rparr>) [] opts =
       (Inr (PTuple [jsonapi_errors env [to_dict env
          (BadRequest ''/data/id'' ''Missing id in "data" node'')], PInt 400]),
        opts, [])\<close>
    by simp
qed

lemma check_patch_document_scalar:
  "map_of doc ''data'' = Some v \<Longrightarrow> \<not> is_dict v \<Longrightarrow> \<not> is_list v \<Longrightarrow>
   check_patch_document t a (PDict doc) = Inr ()"
  by (simp add: check_patch_document_def)

lemma check_patch_document_list:
  \<open>map_of doc ''data'' = Some (PList objs) \<Longrightarrow>
   check_patch_document t a (PDict doc) =
     check_items (case a of None \<Rightarrow> Inl AttributeError | Some v \<Rightarrow> Inr v)
       ''The type provided does not match the resource type'' objs\<close>
  by (simp add: check_patch_document_def)

lemma check_patch_document_dict:
  \<open>map_of doc ''data'' = Some (PDict item) \<Longrightarrow>
   check_patch_document t a (PDict doc) =
     check_item (Inr (PStr t)) ''The type field does not match the resource type'' (PDict item)\<close>
  by (simp add: check_patch_document_def split: sum.splits)

lemma mutation_passed:
  "relationship_mutation env (Inr ()) called caught c opts =
     ((case called of
         None \<Rightarrow> Inr (PStr '''')
       | Some e \<Rightarrow> if cls e \<in> set caught then Inr (error_response env e) else Inl (Raised e)),
      opts, [c])"
  by (simp add: relationship_mutation_def split: option.splits)

lemma mutation_InvalidType:
  "relationship_mutation env (Inl (Raised (InvalidType p d))) called caught c opts =
     (Inr (error_response env (InvalidType p d)), opts, [])"
  by (simp add: relationship_mutation_def cls_InvalidType)

text \<open>
  C10.  \<^verbatim>\<open>Relationship.patch\<close> on a JSON object whose \<open>data\<close> is neither an object nor
  a list: the checks raise nothing, the document goes unchanged to \<open>update_relation\<close>,
  and the answer is the empty body, or what the handler makes of an exception of the
  data layer; no answer comes from the checks.
\<close>

theorem relationship_patch_scalar_data_forwarded:
  assumes "get_json req = PDict doc" and "map_of doc ''data'' = Some v"
    and "\<not> is_dict v" and "\<not> is_list v"
  shows "check_patch_document (schema_type (schema self)) (self_type self) (get_json req) = Inr ()
    \<and> Relationship_patch env self req kwargs opts =
        ((case update_relation (data_layer self) (get_json req)
                 (case related_id_field opts of None \<Rightarrow> ''id'' | Some f \<Rightarrow> f) kwargs of
            None \<Rightarrow> Inr (PStr '''')
          | Some e \<Rightarrow>
              if cls e = RelationNotFoundC \<or> cls e = ObjectNotFoundC
              then Inr (error_response env e) else Inl (Raised e)),
         opts,
         [UpdateRelation (get_json req)
            (case related_id_field opts of None \<Rightarrow> ''id'' | Some f \<Rightarrow> f) kwargs])"
  using assms
  by (simp add: Relationship_patch_def check_patch_document_scalar mutation_passed
      split: option.splits)

theorem relationship_patch_scalar_data_forwarded_witness:
  "\<forall>env self req opts.
     Relationship_patch env
       (self\<lparr>data_layer := (data_layer self)\<lparr>update_relation := (\<lambda>d f k. None)\<rparr>\<rparr>)
       (req\<lparr>get_json := PDict [(''data'', PStr ''people'')]\<rparr>) []
       (opts\<lparr>related_id_field := None\<rparr>) =
       (Inr (PStr ''''), opts\<lparr>related_id_field := None\<rparr>,
        [UpdateRelation (PDict [(''data'', PStr ''people'')]) ''id'' []])
   \<and> Relationship_patch env
       (self\<lparr>data_layer := (data_layer self)\<lparr>update_relation := (\<lambda>d f k. None)\<rparr>\<rparr>)
       (req\<lparr>get_json := PDict [(''data'', PInt 7)]\<rparr>) []
       (opts\<lparr>related_id_field := None\<rparr>) =
       (Inr (PStr ''''), opts\<lparr>related_id_field := None\<rparr>,
        [UpdateRelation (PDict [(''data'', PInt 7)]) ''id'' []])"
proof (intro allI conjI)
  fix env :: modules and self :: resource and req :: request and opts :: Meta
  let ?self = "self\<lparr>data_layer := (data_layer self)\<lparr>update_relation := (\<lambda>d f k. None)\<rparr>\<rparr>"
  let ?opts = "opts\<lparr>related_id_field := None\<rparr>"
  show "Relationship_patch env ?self (req\<lparr>get_json := PDict [(''data'', PStr ''people'')]\<rparr>) []
       ?opts =
       (Inr (PStr ''''), ?opts, [UpdateRelation (PDict [(''data'', PStr ''people'')]) ''id'' []])"
    using relationship_patch_scalar_data_forwarded
      [where req = "req\<lparr>get_json := PDict [(''data'', PStr ''people'')]\<rparr>"
         and doc = "[(''data'', PStr ''people'')]" and v = "PStr ''people''"
         and self = ?self and env = env and kwargs = "[]" and opts = ?opts]
    by simp
  show "Relationship_patch env ?self (req\<lparr>get_json := PDict [(''data'', PInt 7)]\<rparr>) []
       ?opts =
       (Inr (PStr ''''), ?opts, [UpdateRelation (PDict [(''data'', PInt 7)]) ''id'' []])"
    using relationship_patch_scalar_data_forwarded
      [where req = "req\<lparr>get_json := PDict [(''data'', PInt 7)]\<rparr>"
         and doc = "[(''data'', PInt 7)]" and v = "PInt 7"
         and self = ?self and env = env and kwargs = "[]" and opts = ?opts]
    by simp
qed

text \<open>
  C1.  What the code does with a type mismatch.  \<^verbatim>\<open>Relationship.post\<close> and the
  single-object branch of \<^verbatim>\<open>Relationship.patch\<close> compare the item's \<open>type\<close> with the
  type the schema declares and answer with the envelope of \<open>InvalidType\<close> at
  \<open>/data/type\<close>.  The list branch of \<^verbatim>\<open>Relationship.patch\<close> compares with
  \<^verbatim>\<open>self.type_\<close> instead: on a resource without that attribute the same item ends the
  request with \<open>AttributeError\<close> (whatever its type), and on a resource whose attribute
  holds the item's type the mismatch with the schema goes through to \<open>update_relation\<close>.
\<close>

theorem relationship_patch_list_type_check:
  "Relationship_post env (self\<lparr>schema := (schema self)\<lparr>schema_type := ''person''\<rparr>\<rparr>)
     (req\<lparr>get_json :=
        PDict [(''data'', PList [PDict [(''type'', PStr ''computer''), (''id'', PStr ''1'')]])]\<rparr>)
     kwargs opts =
     (Inr (error_response env
        (InvalidType ''/data/type'' ''The type provided does not match the resource type'')),
      opts, [])
   \<and> Relationship_patch env (self\<lparr>schema := (schema self)\<lparr>schema_type := ''person''\<rparr>\<rparr>)
     (req\<lparr>get_json :=
        PDict [(''data'', PDict [(''type'', PStr ''computer''), (''id'', PStr ''1'')])]\<rparr>)
     kwargs opts =
     (Inr (error_response env
        (InvalidType ''/data/type'' ''The type field does not match the resource type'')),
      opts, [])
   \<and> Relationship_patch env
     (self\<lparr>schema := (schema self)\<lparr>schema_type := ''person''\<rparr>, self_type := None\<rparr>)
     (req\<lparr>get_json :=
        PDict [(''data'', PList [PDict [(''type'', PStr ''computer''), (''id'', PStr ''1'')]])]\<rparr>)
     kwargs opts =
     (Inl AttributeError, opts, [])
   \<and> Relationship_patch env
     (self\<lparr>schema := (schema self)\<lparr>schema_type := ''person''\<rparr>,
           self_type := Some (PStr ''computer''),
           data_layer := (data_layer self)\<lparr>update_relation := (\<lambda>d f k. None)\<rparr>\<rparr>)
     (req\<lparr>get_json :=
        PDict [(''data'', PList [PDict [(''type'', PStr ''computer''), (''id'', PStr ''1'')]])]\<rparr>)
     kwargs opts =
     (Inr (PStr ''''), opts,
      [UpdateRelation
         (PDict [(''data'', PList [PDict [(''type'', PStr ''computer''), (''id'', PStr ''1'')]])])
         (case related_id_field opts of None \<Rightarrow> ''id'' | Some f \<Rightarrow> f) kwargs])"
  by (simp add: Relationship_post_def Relationship_patch_def check_list_document_list
      check_patch_document_list check_patch_document_dict check_item_dict
      mutation_InvalidType mutation_passed relationship_mutation_def
      check_item_def py_eq_PStr cls_InvalidType)

section \<open>Properties of the collection and single-resource endpoints\<close>

lemma ResourceList_get_opts_trace:
  "snd (ResourceList_get env self req kwargs opts) =
     ((case schema_get_kwargs opts of
         None \<Rightarrow> opts
       | Some d \<Rightarrow> opts\<lparr>schema_get_kwargs := Some (AList.update ''many'' (PBool True) d)\<rparr>),
      [GetCollection (QSManager env (args req)) kwargs])"
  by (simp add: ResourceList_get_def Let_def split: prod.splits sum.splits option.splits)

lemma ResourceDetail_patch_opts:
  "fst (snd (ResourceDetail_patch env self req kwargs opts)) =
     (case schema_patch_kwargs opts of
        None \<Rightarrow> opts
      | Some d \<Rightarrow> opts\<lparr>schema_patch_kwargs := Some (AList.delete ''partial'' d)\<rparr>)"
  by (simp add: ResourceDetail_patch_def Let_def
      split: prod.splits sum.splits option.splits pyerror.splits)

text \<open>
  C9, as the code has it.  When \<^verbatim>\<open>compute_schema\<close> raises \<open>InvalidField\<close>,
  \<^verbatim>\<open>ResourceList.get\<close> answers with the error envelope at the status the exception
  carries, and \<open>get_collection\<close> has been called, once, before the abort: the fetch
  is the first thing the handler does.
\<close>

theorem ResourceList_get_invalid_field:
  assumes "compute_schema env (schema self)
             (AList.update ''many'' (PBool True)
                (case schema_get_kwargs opts of None \<Rightarrow> [] | Some d \<Rightarrow> d))
             (QSManager env (args req)) PNone = Inl e"
    and "cls e = InvalidFieldC"
  shows "fst (ResourceList_get env self req kwargs opts) =
           Inr (PTuple [jsonapi_errors env [to_dict env e], status e])
       \<and> snd (snd (ResourceList_get env self req kwargs opts)) =
           [GetCollection (QSManager env (args req)) kwargs]"
  using assms
  by (simp add: ResourceList_get_def Let_def error_response_def split: prod.splits)

theorem ResourceList_get_invalid_field_witness:
  "fst (ResourceList_get example_modules example_resource example_request [] example_Meta) =
     Inr (PTuple
       [PDict [(''errors'', PList
          [PDict [(''status'', PInt 400),
                  (''source'', PDict [(''pointer'', PStr ''fields'')]),
                  (''detail'', PStr ''person has no attribute nope'')]])],
        PInt 400])
   \<and> snd (snd (ResourceList_get example_modules example_resource example_request []
                 example_Meta)) =
     [GetCollection
        \<lparr>querystring = PDict [(''fields[person]'', PStr ''nope'')], qs_include = PList []\<rparr> []]"
  using ResourceList_get_invalid_field
    [where env = example_modules and self = example_resource and req = example_request
       and opts = example_Meta and kwargs = "[]"
       and e = "JsonApiException InvalidFieldC ''fields'' ''person has no attribute nope''
                  (default_status InvalidFieldC)"]
  by (simp add: example_modules_def example_resource_def example_request_def example_Meta_def)

text \<open>
  The claim C9 as it is written fails on the example endpoint: the request selects an
  invalid field, and the handler has called \<open>get_collection\<close> when it answers.
\<close>

theorem ResourceList_get_fetch_before_abort_counterexample:
  "compute_schema example_modules (schema example_resource) [(''many'', PBool True)]
     (QSManager example_modules (args example_request)) PNone =
     Inl (JsonApiException InvalidFieldC ''fields'' ''person has no attribute nope'' (PInt 400))
   \<and> snd (snd (ResourceList_get example_modules example_resource example_request []
                 example_Meta)) \<noteq> []"
  by (simp add: ResourceList_get_def example_modules_def example_resource_def
      example_request_def example_Meta_def example_data_layer_def)

text \<open>
  C2, what the code does.  \<^verbatim>\<open>Relationship.get\<close> on a resource whose \<^verbatim>\<open>Meta\<close> has the
  template \<^verbatim>\<open>endpoint_kwargs = {'person_id': 'owner.id'}\<close> writes the resolved value
  over the template, in the \<^verbatim>\<open>Meta\<close> every request shares; the same request made
  again finds the number where the path was and ends with \<open>AttributeError\<close>.
  \<^verbatim>\<open>ResourceList.get\<close> and \<^verbatim>\<open>ResourceDetail.patch\<close> write to the dicts of \<^verbatim>\<open>Meta\<close>
  too (\<^verbatim>\<open>update({'many': True})\<close>, \<^verbatim>\<open>pop('partial', None)\<close>).
\<close>

theorem Relationship_get_overwrites_endpoint_kwargs:
  "Relationship_get
     (env\<lparr>QSManager := (\<lambda>a. \<lparr>querystring = a, qs_include = PList []\<rparr>)\<rparr>)
     (self\<lparr>data_layer := (data_layer self)
        \<lparr>get_relation :=
           (\<lambda>t f kw. Inr (PObject [(''owner'', PObject [(''id'', PInt 7)])], PNone))\<rparr>\<rparr>)
     req kwargs (opts\<lparr>endpoint_kwargs := Some [(''person_id'', PStr ''owner.id'')]\<rparr>) =
     (Inr (PDict
        [(''links'', PDict
            [(''self'', url_for env (endpoint self) kwargs),
             (''related'', url_for env (related_endpoint self) [(''person_id'', PInt 7)])]),
         (''data'', PNone)]),
      opts\<lparr>endpoint_kwargs := Some [(''person_id'', PInt 7)]\<rparr>,
      [GetRelation (related_type self)
         (case related_id_field opts of None \<Rightarrow> ''id'' | Some f \<Rightarrow> f) kwargs])
   \<and> Relationship_get
     (env\<lparr>QSManager := (\<lambda>a. \<lparr>querystring = a, qs_include = PList []\<rparr>)\<rparr>)
     (self\<lparr>data_layer := (data_layer self)
        \<lparr>get_relation :=
           (\<lambda>t f kw. Inr (PObject [(''owner'', PObject [(''id'', PInt 7)])], PNone))\<rparr>\<rparr>)
     req kwargs (opts\<lparr>endpoint_kwargs := Some [(''person_id'', PInt 7)]\<rparr>) =
     (Inl AttributeError,
      opts\<lparr>endpoint_kwargs := Some [(''person_id'', PInt 7)]\<rparr>,
      [GetRelation (related_type self)
         (case related_id_field opts of None \<Rightarrow> ''id'' | Some f \<Rightarrow> f) kwargs])
   \<and> snd (ResourceList_get env self req kwargs (opts\<lparr>schema_get_kwargs := Some []\<rparr>)) =
     (opts\<lparr>schema_get_kwargs := Some [(''many'', PBool True)]\<rparr>,
      [GetCollection (QSManager env (args req)) kwargs])
   \<and> fst (snd (ResourceDetail_patch env self req kwargs
        (opts\<lparr>schema_patch_kwargs := Some [(''partial'', PBool False)]\<rparr>))) =
     opts\<lparr>schema_patch_kwargs := Some []\<rparr>"
proof -
  let ?env = "env\<lparr>QSManager := (\<lambda>a. \<lparr>querystring = a, qs_include = PList []\<rparr>)\<rparr>"
  let ?self = "self\<lparr>data_layer := (data_layer self)
        \<lparr>get_relation :=
           (\<lambda>t f kw. Inr (PObject [(''owner'', PObject [(''id'', PInt 7)])], PNone))\<rparr>\<rparr>"
  have split_path: "split_on CHR ''.'' ''owner.id'' = [''owner'', ''id'']"
    by simp
  have first: "Relationship_get ?env ?self req kwargs
      (opts\<lparr>endpoint_kwargs := Some [(''person_id'', PStr ''owner.id'')]\<rparr>) =
     (Inr (PDict
        [(''links'', PDict
            [(''self'', url_for env (endpoint self) kwargs),
             (''related'', url_for env (related_endpoint self) [(''person_id'', PInt 7)])]),
         (''data'', PNone)]),
      opts\<lparr>endpoint_kwargs := Some [(''person_id'', PInt 7)]\<rparr>,
      [GetRelation (related_type self)
         (case related_id_field opts of None \<Rightarrow> ''id'' | Some f \<Rightarrow> f) kwargs])"
    by (simp add: Relationship_get_def Relationship_get_result_def split_path)
  have second: "Relationship_get ?env ?self req kwargs
      (opts\<lparr>endpoint_kwargs := Some [(''person_id'', PInt 7)]\<rparr>) =
     (Inl AttributeError,
      opts\<lparr>endpoint_kwargs := Some [(''person_id'', PInt 7)]\<rparr>,
      [GetRelation (related_type self)
         (case related_id_field opts of None \<Rightarrow> ''id'' | Some f \<Rightarrow> f) kwargs])"
    by (simp add: Relationship_get_def)
  have third: "snd (ResourceList_get env self req kwargs (opts\<lparr>schema_get_kwargs := Some []\<rparr>)) =
     (opts\<lparr>schema_get_kwargs := Some [(''many'', PBool True)]\<rparr>,
      [GetCollection (QSManager env (args req)) kwargs])"
    by (simp add: ResourceList_get_opts_trace)
  have fourth: "fst (snd (ResourceDetail_patch env self req kwargs
        (opts\<lparr>schema_patch_kwargs := Some [(''partial'', PBool False)]\<rparr>))) =
     opts\<lparr>schema_patch_kwargs := Some []\<rparr>"
    by (simp add: ResourceDetail_patch_opts)
  show ?thesis
    using first second third fourth by simp
qed

lemma mark_each_dicts:
  "mark_each s t (map PDict errs) =
     Inr (map (\<lambda>e. PDict (AList.update ''title'' (PStr t) (AList.update ''status'' (PStr s) e)))
            errs)"
  by (induction errs) simp_all

lemma mark_errors_dicts:
  "map_of messages ''errors'' = Some (PList (map PDict errs)) \<Longrightarrow>
   mark_errors s t (PDict messages) =
     Inr (PDict (AList.update ''errors''
       (PList (map (\<lambda>e. PDict (AList.update ''title'' (PStr t)
                                 (AList.update ''status'' (PStr s) e))) errs))
       messages))"
  by (simp add: mark_errors_def mark_each_dicts)

lemma marked_entry:
  "map_of (AList.update ''title'' (PStr t) (AList.update ''status'' (PStr s) e)) =
     (map_of e)(''status'' \<mapsto> PStr s, ''title'' \<mapsto> PStr t)"
  by (simp add: update_conv')

lemma load_errors_IncorrectType:
  "map_of messages ''errors'' = Some (PList (map PDict errs)) \<Longrightarrow>
   load_errors (IncorrectTypeError (PDict messages)) =
     Some (Inr (PTuple
       [PDict (AList.update ''errors''
          (PList (map (\<lambda>e. PDict (AList.update ''title'' (PStr ''Incorrect type'')
                                    (AList.update ''status'' (PStr ''409'') e))) errs))
          messages),
        PInt 409]))"
  by (simp add: load_errors_def mark_errors_dicts)

lemma load_errors_Validation:
  assumes "lo = ValidationError (PDict messages) \<or> lo = Loaded data (PDict messages)"
    and "map_of messages ''errors'' = Some (PList (map PDict errs))"
  shows "load_errors lo =
     Some (Inr (PTuple
       [PDict (AList.update ''errors''
          (PList (map (\<lambda>e. PDict (AList.update ''title'' (PStr ''Validation error'')
                                    (AList.update ''status'' (PStr ''422'') e))) errs))
          messages),
        PInt 422]))"
proof -
  have "messages \<noteq> []"
    using assms(2) by auto
  then show ?thesis
    using assms by (auto simp: load_errors_def mark_errors_dicts)
qed

text \<open>
  C4.  \<^verbatim>\<open>ResourceList.post\<close> when \<^verbatim>\<open>schema.load\<close> raises \<open>IncorrectTypeError\<close> with
  a list of error objects under \<open>errors\<close>: the handler returns status 409 with that
  document, in which there is one error object for each one the schema reported, each
  with status \<open>409\<close> and title \<open>Incorrect type\<close> and otherwise as reported; the data
  layer is not called.
\<close>

theorem ResourceList_post_incorrect_type:
  assumes "load (instantiate (schema self)
                   (case schema_post_kwargs opts of None \<Rightarrow> [] | Some d \<Rightarrow> d))
             (get_json req) = IncorrectTypeError (PDict messages)"
    and "map_of messages ''errors'' = Some (PList (map PDict errs))"
  shows "\<exists>errs'.
      ResourceList_post env self req kwargs opts =
        (Inr (PTuple [PDict (AList.update ''errors'' (PList (map PDict errs')) messages),
                      PInt 409]),
         opts, [])
    \<and> length errs' = length errs
    \<and> (\<forall>i < length errs.
          map_of (errs' ! i) ''status'' = Some (PStr ''409'')
        \<and> map_of (errs' ! i) ''title'' = Some (PStr ''Incorrect type'')
        \<and> (\<forall>k. k \<noteq> ''status'' \<and> k \<noteq> ''title'' \<longrightarrow>
               map_of (errs' ! i) k = map_of (errs ! i) k))"
proof -
  let ?upd = "\<lambda>e. AList.update ''title'' (PStr ''Incorrect type'')
                    (AList.update ''status'' (PStr ''409'') e)"
  have m: "map (\<lambda>e. PDict (?upd e)) errs = map PDict (map ?upd errs)"
    by simp
  have "ResourceList_post env self req kwargs opts =
        (Inr (PTuple [PDict (AList.update ''errors'' (PList (map PDict (map ?upd errs))) messages),
                      PInt 409]),
         opts, [])"
    using assms
    by (simp add: ResourceList_post_def Let_def load_errors_IncorrectType [OF assms(2)] m
        del: map_map)
  moreover have "length (map ?upd errs) = length errs"
    by simp
  moreover have "\<forall>i < length errs.
          map_of (map ?upd errs ! i) ''status'' = Some (PStr ''409'')
        \<and> map_of (map ?upd errs ! i) ''title'' = Some (PStr ''Incorrect type'')
        \<and> (\<forall>k. k \<noteq> ''status'' \<and> k \<noteq> ''title'' \<longrightarrow>
               map_of (map ?upd errs ! i) k = map_of (errs ! i) k)"
    by (simp add: marked_entry)
  ultimately show ?thesis
    by blast
qed

theorem ResourceList_post_incorrect_type_witness:
  "\<forall>env self req opts. \<exists>errs'.
     ResourceList_post env
       (self\<lparr>schema := (schema self)
          \<lparr>instantiate := (\<lambda>kw.
             \<lparr>load = (\<lambda>doc. IncorrectTypeError
                 (PDict [(''errors'', PList [PDict [(''detail'', PStr ''Invalid type''),
                    (''source'', PDict [(''pointer'', PStr ''/data/type'')])]])])),
              dump = (\<lambda>obj. obj)\<rparr>)\<rparr>\<rparr>)
       req [] opts =
     (Inr (PTuple [PDict [(''errors'', PList (map PDict errs'))], PInt 409]), opts, [])
   \<and> length errs' = 1
   \<and> map_of (errs' ! 0) ''status'' = Some (PStr ''409'')
   \<and> map_of (errs' ! 0) ''title'' = Some (PStr ''Incorrect type'')
   \<and> map_of (errs' ! 0) ''detail'' = Some (PStr ''Invalid type'')"
proof (intro allI)
  fix env :: modules and self :: resource and req :: request and opts :: Meta
  let ?err = "[(''detail'', PStr ''Invalid type''),
               (''source'', PDict [(''pointer'', PStr ''/data/type'')])]"
  let ?self = "self\<lparr>schema := (schema self)
          \<lparr>instantiate := (\<lambda>kw.
             \<lparr>load = (\<lambda>doc. IncorrectTypeError (PDict [(''errors'', PList [PDict ?err])])),
              dump = (\<lambda>obj. obj)\<rparr>)\<rparr>\<rparr>"
  from ResourceList_post_incorrect_type
    [where self = ?self and opts = opts and req = req and env = env and kwargs = "[]"
       and messages = "[(''errors'', PList [PDict ?err])]" and errs = "[?err]"]
  obtain errs' where
    r: "ResourceList_post env ?self req [] opts =
     (Inr (PTuple [PDict [(''errors'', PList (map PDict errs'))], PInt 409]), opts, [])"
    and l: "length errs' = 1"
    and st: "map_of (errs' ! 0) ''status'' = Some (PStr ''409'')"
    and ti: "map_of (errs' ! 0) ''title'' = Some (PStr ''Incorrect type'')"
    and rest: "\<forall>k. k \<noteq> ''status'' \<and> k \<noteq> ''title'' \<longrightarrow> map_of (errs' ! 0) k = map_of ?err k"
    by auto
  from rest have "map_of (errs' ! 0) ''detail'' = Some (PStr ''Invalid type'')"
    by simp
  with r l st ti show "\<exists>errs'.
     ResourceList_post env ?self req [] opts =
     (Inr (PTuple [PDict [(''errors'', PList (map PDict errs'))], PInt 409]), opts, [])
   \<and> length errs' = 1
   \<and> map_of (errs' ! 0) ''status'' = Some (PStr ''409'')
   \<and> map_of (errs' ! 0) ''title'' = Some (PStr ''Incorrect type'')
   \<and> map_of (errs' ! 0) ''detail'' = Some (PStr ''Invalid type'')"
    by blast
qed

text \<open>
  C5.  \<^verbatim>\<open>ResourceList.post\<close> and \<^verbatim>\<open>ResourceDetail.patch\<close> when \<^verbatim>\<open>schema.load\<close> reports
  field failures, by raising \<open>ValidationError\<close> or by returning them beside the data,
  as a list of error objects under \<open>errors\<close>: the handler returns once, status 422
  with that document, in which there is one error object for each failure reported, each
  with status \<open>422\<close> and title \<open>Validation error\<close> and otherwise as reported; the data
  layer is not called.
\<close>

theorem validation_errors_one_envelope:
  assumes "lo = ValidationError (PDict messages) \<or> lo = Loaded data (PDict messages)"
    and "map_of messages ''errors'' = Some (PList (map PDict errs))"
  shows "\<exists>errs'.
      (load (instantiate (schema self)
               (case schema_post_kwargs opts of None \<Rightarrow> [] | Some d \<Rightarrow> d))
         (get_json req) = lo \<longrightarrow>
       ResourceList_post env self req kwargs opts =
         (Inr (PTuple [PDict (AList.update ''errors'' (PList (map PDict errs')) messages),
                       PInt 422]),
          opts, []))
    \<and> (load (instantiate (schema self)
               ((''partial'', PBool True) #
                AList.delete ''partial''
                  (case schema_patch_kwargs opts of None \<Rightarrow> [] | Some d \<Rightarrow> d)))
         (get_json req) = lo \<longrightarrow>
       fst (ResourceDetail_patch env self req kwargs opts) =
         Inr (PTuple [PDict (AList.update ''errors'' (PList (map PDict errs')) messages),
                      PInt 422])
       \<and> snd (snd (ResourceDetail_patch env self req kwargs opts)) = [])
    \<and> length errs' = length errs
    \<and> (\<forall>i < length errs.
          map_of (errs' ! i) ''status'' = Some (PStr ''422'')
        \<and> map_of (errs' ! i) ''title'' = Some (PStr ''Validation error'')
        \<and> (\<forall>k. k \<noteq> ''status'' \<and> k \<noteq> ''title'' \<longrightarrow>
               map_of (errs' ! i) k = map_of (errs ! i) k))"
proof -
  let ?upd = "\<lambda>e. AList.update ''title'' (PStr ''Validation error'')
                    (AList.update ''status'' (PStr ''422'') e)"
  let ?ret = "PTuple [PDict (AList.update ''errors'' (PList (map PDict (map ?upd errs))) messages),
                      PInt 422]"
  have m: "map (\<lambda>e. PDict (?upd e)) errs = map PDict (map ?upd errs)"
    by simp
  have le: "load_errors lo = Some (Inr ?ret)"
    using load_errors_Validation [OF assms] by (simp only: m)
  have post: "load (instantiate (schema self)
               (case schema_post_kwargs opts of None \<Rightarrow> [] | Some d \<Rightarrow> d))
         (get_json req) = lo \<longrightarrow>
       ResourceList_post env self req kwargs opts = (Inr ?ret, opts, [])"
    using le by (simp add: ResourceList_post_def Let_def del: map_map)
  have patch: "load (instantiate (schema self)
               ((''partial'', PBool True) #
                AList.delete ''partial''
                  (case schema_patch_kwargs opts of None \<Rightarrow> [] | Some d \<Rightarrow> d)))
         (get_json req) = lo \<longrightarrow>
       fst (ResourceDetail_patch env self req kwargs opts) = Inr ?ret
       \<and> snd (snd (ResourceDetail_patch env self req kwargs opts)) = []"
    using le by (simp add: ResourceDetail_patch_def Let_def del: map_map)
  have len: "length (map ?upd errs) = length errs"
    by simp
  have each: "\<forall>i < length errs.
          map_of (map ?upd errs ! i) ''status'' = Some (PStr ''422'')
        \<and> map_of (map ?upd errs ! i) ''title'' = Some (PStr ''Validation error'')
        \<and> (\<forall>k. k \<noteq> ''status'' \<and> k \<noteq> ''title'' \<longrightarrow>
               map_of (map ?upd errs ! i) k = map_of (errs ! i) k)"
    by (simp add: marked_entry)
  from post patch len each show ?thesis
    by blast
qed

theorem validation_errors_one_envelope_witness:
  "\<forall>env self req opts. \<exists>errs'.
     ResourceList_post env
       (self\<lparr>schema := (schema self)
          \<lparr>instantiate := (\<lambda>kw.
             \<lparr>load = (\<lambda>doc. ValidationError
                 (PDict [(''errors'', PList
                    [PDict [(''source'', PDict [(''pointer'', PStr ''/data/attributes/name'')])],
                     PDict [(''source'', PDict [(''pointer'', PStr ''/data/attributes/email'')])]])])),
              dump = (\<lambda>obj. obj)\<rparr>)\<rparr>\<rparr>)
       req [] opts =
     (Inr (PTuple [PDict [(''errors'', PList (map PDict errs'))], PInt 422]), opts, [])
   \<and> length errs' = 2
   \<and> map_of (errs' ! 0) ''status'' = Some (PStr ''422'')
   \<and> map_of (errs' ! 0) ''title'' = Some (PStr ''Validation error'')
   \<and> map_of (errs' ! 0) ''source'' = Some (PDict [(''pointer'', PStr ''/data/attributes/name'')])
   \<and> map_of (errs' ! 1) ''status'' = Some (PStr ''422'')
   \<and> map_of (errs' ! 1) ''title'' = Some (PStr ''Validation error'')
   \<and> map_of (errs' ! 1) ''source'' = Some (PDict [(''pointer'', PStr ''/data/attributes/email'')])"
proof (intro allI)
  fix env :: modules and self :: resource and req :: request and opts :: Meta
  let ?e0 = "[(''source'', PDict [(''pointer'', PStr ''/data/attributes/name'')])]"
  let ?e1 = "[(''source'', PDict [(''pointer'', PStr ''/data/attributes/email'')])]"
  let ?m = "[(''errors'', PList [PDict ?e0, PDict ?e1])]"
  let ?self = "self\<lparr>schema := (schema self)
          \<lparr>instantiate := (\<lambda>kw.
             \<lparr>load = (\<lambda>doc. ValidationError (PDict ?m)), dump = (\<lambda>obj. obj)\<rparr>)\<rparr>\<rparr>"
  from validation_errors_one_envelope
    [where lo = "ValidationError (PDict ?m)" and messages = ?m and errs = "[?e0, ?e1]"
       and self = ?self and opts = opts and req = req and env = env and kwargs = "[]"]
  obtain errs' where
    r: "ResourceList_post env ?self req [] opts =
     (Inr (PTuple [PDict [(''errors'', PList (map PDict errs'))], PInt 422]), opts, [])"
    and l: "length errs' = 2"
    and each: "\<forall>i < 2.
          map_of (errs' ! i) ''status'' = Some (PStr ''422'')
        \<and> map_of (errs' ! i) ''title'' = Some (PStr ''Validation error'')
        \<and> (\<forall>k. k \<noteq> ''status'' \<and> k \<noteq> ''title'' \<longrightarrow>
               map_of (errs' ! i) k = map_of ([?e0, ?e1] ! i) k)"
    by auto
  from each [rule_format, of 0] each [rule_format, of 1]
  have "map_of (errs' ! 0) ''status'' = Some (PStr ''422'')
      \<and> map_of (errs' ! 0) ''title'' = Some (PStr ''Validation error'')
      \<and> map_of (errs' ! 0) ''source'' = Some (PDict [(''pointer'', PStr ''/data/attributes/name'')])
      \<and> map_of (errs' ! 1) ''status'' = Some (PStr ''422'')
      \<and> map_of (errs' ! 1) ''title'' = Some (PStr ''Validation error'')
      \<and> map_of (errs' ! 1) ''source'' = Some (PDict [(''pointer'', PStr ''/data/attributes/email'')])"
    by simp
  with r l show "\<exists>errs'.
     ResourceList_post env ?self req [] opts =
     (Inr (PTuple [PDict [(''errors'', PList (map PDict errs'))], PInt 422]), opts, [])
   \<and> length errs' = 2
   \<and> map_of (errs' ! 0) ''status'' = Some (PStr ''422'')
   \<and> map_of (errs' ! 0) ''title'' = Some (PStr ''Validation error'')
   \<and> map_of (errs' ! 0) ''source'' = Some (PDict [(''pointer'', PStr ''/data/attributes/name'')])
   \<and> map_of (errs' ! 1) ''status'' = Some (PStr ''422'')
   \<and> map_of (errs' ! 1) ''title'' = Some (PStr ''Validation error'')
   \<and> map_of (errs' ! 1) ''source'' = Some (PDict [(''pointer'', PStr ''/data/attributes/email'')])"
    by blast
qed

lemma check_id_dict:
  \<open>map_of doc ''data'' = Some (PDict node) \<Longrightarrow>
   check_id (PDict doc) kwargs f =
     (case map_of node ''id'' of
        None \<Rightarrow> Inl (Raised (BadRequest ''/data/id'' ''Missing id in "data" node''))
      | Some i \<Rightarrow>
          (case map_of kwargs f of
             None \<Rightarrow> Inl KeyError
           | Some r \<Rightarrow>
               if \<not> py_eq i r
               then Inl (Raised (BadRequest ''/data/id''
                      ''Value of id does not match the resource identifier in url''))
               else Inr ()))\<close>
  by (simp add: check_id_def split: option.splits)

lemma load_errors_passed: "\<not> py_truthy errors \<Longrightarrow> load_errors (Loaded data errors) = None"
  by (simp add: load_errors_def)

lemma ResourceDetail_patch_BadRequest:
  assumes "load (instantiate (schema self)
               ((''partial'', PBool True) #
                AList.delete ''partial''
                  (case schema_patch_kwargs opts of None \<Rightarrow> [] | Some d \<Rightarrow> d)))
             (get_json req) = Loaded data errors"
    and "\<not> py_truthy errors"
    and "check_id (get_json req) kwargs (url_field (data_layer self)) =
           Inl (Raised (BadRequest p d))"
  shows "fst (ResourceDetail_patch env self req kwargs opts) =
           Inr (PTuple [jsonapi_errors env [to_dict env (BadRequest p d)], PInt 400])
       \<and> snd (snd (ResourceDetail_patch env self req kwargs opts)) = []"
  using assms
  by (simp add: ResourceDetail_patch_def Let_def load_errors_passed cls_BadRequest
      status_BadRequest error_response_def)

text \<open>
  C6.  \<^verbatim>\<open>ResourceDetail.patch\<close> on a document that the schema loads without errors and
  whose \<open>data\<close> is an object: without \<open>id\<close> the answer is the 400 envelope of a
  \<open>BadRequest\<close> with pointer \<open>/data/id\<close>; with an \<open>id\<close> that is not equal to the
  route's identifier it is the 400 envelope with the same pointer and another message.
  In both cases neither \<open>get_object\<close> nor \<open>update_object\<close> has been called.
\<close>

theorem ResourceDetail_patch_id_checks:
  assumes "load (instantiate (schema self)
               ((''partial'', PBool True) #
                AList.delete ''partial''
                  (case schema_patch_kwargs opts of None \<Rightarrow> [] | Some d \<Rightarrow> d)))
             (get_json req) = Loaded data errors"
    and "\<not> py_truthy errors"
    and "get_json req = PDict doc"
    and "map_of doc ''data'' = Some (PDict node)"
  shows
  \<open>(map_of node ''id'' = None \<longrightarrow>
      fst (ResourceDetail_patch env self req kwargs opts) =
        Inr (PTuple [jsonapi_errors env [to_dict env
          (BadRequest ''/data/id'' ''Missing id in "data" node'')], PInt 400])
      \<and> snd (snd (ResourceDetail_patch env self req kwargs opts)) = [])
   \<and> (\<forall>i r. map_of node ''id'' = Some i \<and>
            map_of kwargs (url_field (data_layer self)) = Some r \<and> \<not> py_eq i r \<longrightarrow>
      fst (ResourceDetail_patch env self req kwargs opts) =
        Inr (PTuple [jsonapi_errors env [to_dict env
          (BadRequest ''/data/id''
             ''Value of id does not match the resource identifier in url'')], PInt 400])
      \<and> snd (snd (ResourceDetail_patch env self req kwargs opts)) = [])\<close>
proof (intro conjI allI impI)
  assume "map_of node ''id'' = None"
  then have \<open>check_id (get_json req) kwargs (url_field (data_layer self)) =
      Inl (Raised (BadRequest ''/data/id'' ''Missing id in "data" node''))\<close>
    using assms(3,4) by (simp add: check_id_dict)
  from ResourceDetail_patch_BadRequest [OF assms(1,2) this]
  show \<open>fst (ResourceDetail_patch env self req kwargs opts) =
        Inr (PTuple [jsonapi_errors env [to_dict env
          (BadRequest ''/data/id'' ''Missing id in "data" node'')], PInt 400])\<close>
    and \<open>snd (snd (ResourceDetail_patch env self req kwargs opts)) = []\<close>
    by simp_all
next
  fix i r
  assume "map_of node ''id'' = Some i \<and>
          map_of kwargs (url_field (data_layer self)) = Some r \<and> \<not> py_eq i r"
  then have \<open>check_id (get_json req) kwargs (url_field (data_layer self)) =
      Inl (Raised (BadRequest ''/data/id''
        ''Value of id does not match the resource identifier in url''))\<close>
    using assms(3,4) by (simp add: check_id_dict)
  from ResourceDetail_patch_BadRequest [OF assms(1,2) this]
  show \<open>fst (ResourceDetail_patch env self req kwargs opts) =
        Inr (PTuple [jsonapi_errors env [to_dict env
          (BadRequest ''/data/id''
             ''Value of id does not match the resource identifier in url'')], PInt 400])\<close>
    and \<open>snd (snd (ResourceDetail_patch env self req kwargs opts)) = []\<close>
    by simp_all
qed

theorem ResourceDetail_patch_id_checks_witness:
  \<open>\<forall>env self opts.
     fst (ResourceDetail_patch env
       (self\<lparr>schema := example_schema\<rparr>)
       (example_request\<lparr>get_json :=
          PDict [(''data'', PDict [(''type'', PStr ''person'')])]\<rparr>)
       [(url_field (data_layer self), PStr ''1'')] opts) =
       Inr (PTuple [jsonapi_errors env [to_dict env
         (BadRequest ''/data/id'' ''Missing id in "data" node'')], PInt 400])
   \<and> snd (snd (ResourceDetail_patch env
       (self\<lparr>schema := example_schema\<rparr>)
       (example_request\<lparr>get_json :=
          PDict [(''data'', PDict [(''type'', PStr ''person'')])]\<rparr>)
       [(url_field (data_layer self), PStr ''1'')] opts)) = []
   \<and> fst (ResourceDetail_patch env
       (self\<lparr>schema := example_schema\<rparr>)
       (example_request\<lparr>get_json :=
          PDict [(''data'', PDict [(''type'', PStr ''person''), (''id'', PStr ''2'')])]\<rparr>)
       [(url_field (data_layer self), PStr ''1'')] opts) =
       Inr (PTuple [jsonapi_errors env [to_dict env
         (BadRequest ''/data/id''
            ''Value of id does not match the resource identifier in url'')], PInt 400])
   \<and> snd (snd (ResourceDetail_patch env
       (self\<lparr>schema := example_schema\<rparr>)
       (example_request\<lparr>get_json :=
          PDict [(''data'', PDict [(''type'', PStr ''person''), (''id'', PStr ''2'')])]\<rparr>)
       [(url_field (data_layer self), PStr ''1'')] opts)) = []\<close>
proof (intro allI)
  fix env :: modules and self :: resource and opts :: Meta
  let ?self = "self\<lparr>schema := example_schema\<rparr>"
  let ?d1 = "[(''data'', PDict [(''type'', PStr ''person'')])]"
  let ?d2 = "[(''data'', PDict [(''type'', PStr ''person''), (''id'', PStr ''2'')])]"
  let ?kw = "[(url_field (data_layer self), PStr ''1'')]"
  have 1: \<open>map_of [(''type'', PStr ''person'')] ''id'' = None \<longrightarrow>
      fst (ResourceDetail_patch env ?self (example_request\<lparr>get_json := PDict ?d1\<rparr>) ?kw opts) =
        Inr (PTuple [jsonapi_errors env [to_dict env
          (BadRequest ''/data/id'' ''Missing id in "data" node'')], PInt 400])
      \<and> snd (snd (ResourceDetail_patch env ?self
                   (example_request\<lparr>get_json := PDict ?d1\<rparr>) ?kw opts)) = []\<close>
    using ResourceDetail_patch_id_checks
      [where self = ?self and opts = opts and env = env and kwargs = ?kw
         and req = "example_request\<lparr>get_json := PDict ?d1\<rparr>" and doc = ?d1
         and node = "[(''type'', PStr ''person'')]"
         and data = "PDict ?d1" and errors = "PDict []"]
    by (simp add: example_schema_def)
  have 2: \<open>\<forall>i r. map_of [(''type'', PStr ''person''), (''id'', PStr ''2'')] ''id'' = Some i \<and>
            map_of ?kw (url_field (data_layer ?self)) = Some r \<and> \<not> py_eq i r \<longrightarrow>
      fst (ResourceDetail_patch env ?self (example_request\<lparr>get_json := PDict ?d2\<rparr>) ?kw opts) =
        Inr (PTuple [jsonapi_errors env [to_dict env
          (BadRequest ''/data/id''
             ''Value of id does not match the resource identifier in url'')], PInt 400])
      \<and> snd (snd (ResourceDetail_patch env ?self
                   (example_request\<lparr>get_json := PDict ?d2\<rparr>) ?kw opts)) = []\<close>
    using ResourceDetail_patch_id_checks
      [where self = ?self and opts = opts and env = env and kwargs = ?kw
         and req = "example_request\<lparr>get_json := PDict ?d2\<rparr>" and doc = ?d2
         and node = "[(''type'', PStr ''person''), (''id'', PStr ''2'')]"
         and data = "PDict ?d2" and errors = "PDict []"]
    by (simp add: example_schema_def)
  from 1 2 [rule_format, of "PStr ''2''" "PStr ''1''"]
  show \<open>fst (ResourceDetail_patch env ?self
       (example_request\<lparr>get_json := PDict ?d1\<rparr>) ?kw opts) =
       Inr (PTuple [jsonapi_errors env [to_dict env
         (BadRequest ''/data/id'' ''Missing id in "data" node'')], PInt 400])
   \<and> snd (snd (ResourceDetail_patch env ?self
       (example_request\<lparr>get_json := PDict ?d1\<rparr>) ?kw opts)) = []
   \<and> fst (ResourceDetail_patch env ?self
       (example_request\<lparr>get_json := PDict ?d2\<rparr>) ?kw opts) =
       Inr (PTuple [jsonapi_errors env [to_dict env
         (BadRequest ''/data/id''
            ''Value of id does not match the resource identifier in url'')], PInt 400])
   \<and> snd (snd (ResourceDetail_patch env ?self
       (example_request\<lparr>get_json := PDict ?d2\<rparr>) ?kw opts)) = []\<close>
    by simp
qed

end
